theory Spec2Isabelle
  imports Main
begin

section \<open>JavaScript values, exceptions and text\<close>

text \<open>
  The servers receive their arguments as JSON-derived values of type \<open>any\<close> and hand
  values of type \<open>any\<close> to \<open>JSON.stringify\<close>.  \<open>VUndefined\<close> is JavaScript's
  \<open>undefined\<close>, \<open>VNull\<close> its \<open>null\<close>; an object is the list of its own enumerable
  properties in insertion order.  Numbers are the integral ones (identifiers, counts,
  dates, limits): the program only passes them through.  A string is the list of the
  bytes of its text.
\<close>

datatype jsval =
    VUndefined
  | VNull
  | VBool bool
  | VNum int
  | VStr string
  | VArr "jsval list"
  | VObj "(string \<times> jsval) list"

text \<open>
  A thrown value.  \<open>JsError m\<close> is an instance of \<open>Error\<close> with message \<open>m\<close>.
  \<open>NonError r\<close> is any other thrown value that is not \<open>null\<close> or \<open>undefined\<close>;
  \<open>r\<close> is the text that its \<open>message\<close> property renders to inside a template
  literal (\<open>undefined\<close> when it has none).
\<close>

datatype thrown = JsError string | NonError string

text \<open>The call arguments of a tool request: \<open>None\<close> when \<open>arguments\<close> is missing.\<close>

type_synonym args = "(string \<rightharpoonup> jsval) option"

text \<open>Truthiness, as \<open>if (x)\<close> and \<open>!x\<close> test it.\<close>

fun js_truthy :: "jsval \<Rightarrow> bool" where
  "js_truthy VUndefined = False"
| "js_truthy VNull = False"
| "js_truthy (VBool b) = b"
| "js_truthy (VNum n) = (n \<noteq> 0)"
| "js_truthy (VStr s) = (s \<noteq> [])"
| "js_truthy (VArr xs) = True"
| "js_truthy (VObj ps) = True"

text \<open>Property read \<open>v.k\<close> on a value that is not \<open>null\<close> or \<open>undefined\<close>.\<close>

fun get_prop :: "jsval \<Rightarrow> string \<Rightarrow> jsval" where
  "get_prop (VObj ps) k = (case map_of ps k of None \<Rightarrow> VUndefined | Some v \<Rightarrow> v)"
| "get_prop v k = VUndefined"

text \<open>Destructuring \<open>const {k} = args\<close> and \<open>const {k = d} = args\<close> of an object.\<close>

definition destructure :: "(string \<rightharpoonup> jsval) \<Rightarrow> string \<Rightarrow> jsval" where
  "destructure a k = (case a k of None \<Rightarrow> VUndefined | Some v \<Rightarrow> v)"

definition destructure_default :: "(string \<rightharpoonup> jsval) \<Rightarrow> string \<Rightarrow> jsval \<Rightarrow> jsval" where
  "destructure_default a k d =
     (case a k of None \<Rightarrow> d | Some VUndefined \<Rightarrow> d | Some v \<Rightarrow> v)"

text \<open>
  Destructuring \<open>undefined\<close> raises a \<open>TypeError\<close> that names the first property of
  the pattern (the text is the one Node.js reports).
\<close>

definition destructure_error :: "string \<Rightarrow> thrown" where
  "destructure_error k =
     JsError (''Cannot destructure property '' @ [CHR 0x27] @ k @ [CHR 0x27]
              @ '' of 'args' as it is undefined.'')"

subsection \<open>Decimal rendering of integers\<close>

definition digit_char :: "nat \<Rightarrow> char" where
  "digit_char n = ''0123456789'' ! n"

function nat_toString :: "nat \<Rightarrow> string" where
  "nat_toString n =
     (if n < 10 then [digit_char n] else nat_toString (n div 10) @ [digit_char (n mod 10)])"
  by pat_completeness auto
termination
  by (relation "measure id") auto

declare nat_toString.simps [simp del]

text \<open>\<open>toString()\<close> of a big integer, and of an integral number.\<close>

definition toString :: "int \<Rightarrow> string" where
  "toString i = (if i < 0 then ''-'' @ nat_toString (nat (- i)) else nat_toString (nat i))"

subsection \<open>\<open>String.prototype.trim\<close>\<close>

text \<open>The white space of the ASCII range: TAB, LF, VT, FF, CR and SPACE.\<close>

definition js_whitespace :: "char \<Rightarrow> bool" where
  "js_whitespace c =
     (c = CHR 0x09 \<or> c = CHR 0x0A \<or> c = CHR 0x0B \<or> c = CHR 0x0C \<or> c = CHR 0x0D \<or> c = CHR 0x20)"

definition trim :: "string \<Rightarrow> string" where
  "trim s = rev (dropWhile js_whitespace (rev (dropWhile js_whitespace s)))"

subsection \<open>\<open>JSON.stringify(value, null, 2)\<close>\<close>

definition hex_digit :: "nat \<Rightarrow> char" where
  "hex_digit n = ''0123456789abcdef'' ! n"

definition json_escape :: "char \<Rightarrow> string" where
  "json_escape c =
     (if c = CHR 0x22 then [CHR 0x5C, CHR 0x22]
      else if c = CHR 0x5C then [CHR 0x5C, CHR 0x5C]
      else if c = CHR 0x08 then [CHR 0x5C, CHR ''b'']
      else if c = CHR 0x0C then [CHR 0x5C, CHR ''f'']
      else if c = CHR 0x0A then [CHR 0x5C, CHR ''n'']
      else if c = CHR 0x0D then [CHR 0x5C, CHR ''r'']
      else if c = CHR 0x09 then [CHR 0x5C, CHR ''t'']
      else if (of_char c :: nat) < 32
        then [CHR 0x5C, CHR ''u'', CHR ''0'', CHR ''0'',
              hex_digit (of_char c div 16), hex_digit (of_char c mod 16)]
      else [c])"

definition json_quote :: "string \<Rightarrow> string" where
  "json_quote s = [CHR 0x22] @ concat (map json_escape s) @ [CHR 0x22]"

fun join :: "string \<Rightarrow> string list \<Rightarrow> string" where
  "join sep [] = []"
| "join sep [x] = x"
| "join sep (x # y # ys) = x @ sep @ join sep (y # ys)"

text \<open>
  \<open>serialize ind v\<close> is the text of \<open>v\<close> at the current indentation \<open>ind\<close>, with the
  gap of two spaces.  A property whose value is \<open>undefined\<close> is left out of an object;
  an \<open>undefined\<close> element of an array is written \<open>null\<close>.
\<close>

fun serialize :: "string \<Rightarrow> jsval \<Rightarrow> string" where
  "serialize ind VUndefined = ''null''"
| "serialize ind VNull = ''null''"
| "serialize ind (VBool b) = (if b then ''true'' else ''false'')"
| "serialize ind (VNum n) = toString n"
| "serialize ind (VStr s) = json_quote s"
| "serialize ind (VArr xs) =
     (if xs = [] then ''[]''
      else ''['' @ [CHR 0x0A] @ ind @ ''  ''
           @ join ('','' @ [CHR 0x0A] @ ind @ ''  '') (map (serialize (ind @ ''  '')) xs)
           @ [CHR 0x0A] @ ind @ '']'')"
| "serialize ind (VObj ps) =
     (let kept = filter (\<lambda>(k, v). v \<noteq> VUndefined) ps in
      if kept = [] then ''{}''
      else ''{'' @ [CHR 0x0A] @ ind @ ''  ''
           @ join ('','' @ [CHR 0x0A] @ ind @ ''  '')
               (map (\<lambda>(k, v). json_quote k @ '': '' @ serialize (ind @ ''  '') v) kept)
           @ [CHR 0x0A] @ ind @ ''}'')"

text \<open>Applied by the program to arrays and objects only.\<close>

definition JSON_stringify :: "jsval \<Rightarrow> string" where
  "JSON_stringify v = serialize [] v"

subsection \<open>\<open>JSON.parse\<close>\<close>

text \<open>
  A reader for JSON texts on the values of the model: the white space, literals,
  strings with their escapes, arrays and objects of the JSON grammar, and integers.
  The servers take \<open>JSON.parse\<close> as a parameter; this reader is the instance used to
  read back what \<open>JSON_stringify\<close> wrote.
\<close>

definition json_whitespace :: "char \<Rightarrow> bool" where
  "json_whitespace c = (c = CHR 0x20 \<or> c = CHR 0x09 \<or> c = CHR 0x0A \<or> c = CHR 0x0D)"

definition skip_ws :: "string \<Rightarrow> string" where
  "skip_ws s = dropWhile json_whitespace s"

definition hex_value :: "char \<Rightarrow> nat option" where
  "hex_value c =
     (let n = (of_char c :: nat) in
      if 48 \<le> n \<and> n \<le> 57 then Some (n - 48)
      else if 97 \<le> n \<and> n \<le> 102 then Some (n - 87)
      else if 65 \<le> n \<and> n \<le> 70 then Some (n - 55)
      else None)"

fun hex4 :: "string \<Rightarrow> (nat \<times> string) option" where
  "hex4 (a # b # c # d # rest) =
     (case (hex_value a, hex_value b, hex_value c, hex_value d) of
        (Some w, Some x, Some y, Some z) \<Rightarrow> Some (((w * 16 + x) * 16 + y) * 16 + z, rest)
      | _ \<Rightarrow> None)"
| "hex4 s = None"

definition utf8_encode :: "nat \<Rightarrow> string" where
  "utf8_encode n =
     (if n < 0x80 then [char_of n]
      else if n < 0x800 then [char_of (0xC0 + n div 64), char_of (0x80 + n mod 64)]
      else if n < 0x10000 then
        [char_of (0xE0 + n div 4096), char_of (0x80 + (n div 64) mod 64), char_of (0x80 + n mod 64)]
      else [char_of (0xF0 + n div 262144), char_of (0x80 + (n div 4096) mod 64),
            char_of (0x80 + (n div 64) mod 64), char_of (0x80 + n mod 64)])"

definition simple_escape :: "char \<Rightarrow> char option" where
  "simple_escape e =
     (if e = CHR 0x22 then Some (CHR 0x22)
      else if e = CHR 0x5C then Some (CHR 0x5C)
      else if e = CHR ''/'' then Some (CHR ''/'')
      else if e = CHR ''b'' then Some (CHR 0x08)
      else if e = CHR ''f'' then Some (CHR 0x0C)
      else if e = CHR ''n'' then Some (CHR 0x0A)
      else if e = CHR ''r'' then Some (CHR 0x0D)
      else if e = CHR ''t'' then Some (CHR 0x09)
      else None)"

text \<open>
  The code point of a \<open>\u\<close> escape, and the text after it: a high surrogate directly
  followed by the escape of a low surrogate forms one code point with it.
\<close>

definition combine_surrogates :: "nat \<Rightarrow> string \<Rightarrow> nat \<times> string" where
  "combine_surrogates n rest =
     (if 0xD800 \<le> n \<and> n < 0xDC00 then
        (case rest of
           b # u # w # x # y # z # rest' \<Rightarrow>
             if b = CHR 0x5C \<and> u = CHR ''u'' then
               (case hex4 [w, x, y, z] of
                  Some (m, r) \<Rightarrow>
                    if 0xDC00 \<le> m \<and> m < 0xE000
                    then (0x10000 + (n - 0xD800) * 0x400 + (m - 0xDC00), rest')
                    else (n, rest)
                | None \<Rightarrow> (n, rest))
             else (n, rest)
         | _ \<Rightarrow> (n, rest))
      else (n, rest))"

text \<open>
  The characters of a string literal after its opening quote, up to the closing quote,
  and the text that follows.
\<close>

function parse_string :: "string \<Rightarrow> (string \<times> string) option" where
  "parse_string [] = None"
| "parse_string (c # cs) =
     (if c = CHR 0x22 then Some ([], cs)
      else if c = CHR 0x5C then
        (case cs of
           [] \<Rightarrow> None
         | e # cs' \<Rightarrow>
             if e = CHR ''u'' then
               (case hex4 cs' of
                  None \<Rightarrow> None
                | Some (n, rest) \<Rightarrow>
                    (case parse_string (snd (combine_surrogates n (drop 4 cs'))) of
                       None \<Rightarrow> None
                     | Some (s, rest') \<Rightarrow>
                         Some (utf8_encode (fst (combine_surrogates n (drop 4 cs'))) @ s, rest')))
             else
               (case simple_escape e of
                  None \<Rightarrow> None
                | Some x \<Rightarrow>
                    (case parse_string cs' of
                       None \<Rightarrow> None
                     | Some (s, rest) \<Rightarrow> Some (x # s, rest))))
      else if (of_char c :: nat) < 32 then None
      else (case parse_string cs of None \<Rightarrow> None | Some (s, rest) \<Rightarrow> Some (c # s, rest)))"
  by pat_completeness auto
termination
proof (relation "measure length")
  show "wf (measure length)" by simp
next
  fix c e :: char and cs cs' :: string and n :: nat
  assume "cs = e # cs'"
  have "length (snd (combine_surrogates n rest)) \<le> length rest" for rest
    by (auto simp add: combine_surrogates_def split: list.splits option.splits)
  then have "length (snd (combine_surrogates n (drop 4 cs'))) \<le> length (drop 4 cs')"
    by blast
  then show "(snd (combine_surrogates n (drop 4 cs')), c # cs) \<in> measure length"
    using \<open>cs = e # cs'\<close> by simp
qed auto

definition is_digit :: "char \<Rightarrow> bool" where
  "is_digit c = (48 \<le> (of_char c :: nat) \<and> (of_char c :: nat) \<le> 57)"

definition digits_value :: "string \<Rightarrow> nat" where
  "digits_value ds = foldl (\<lambda>a c. 10 * a + (of_char c - 48)) 0 ds"

text \<open>
  An integer literal.  A number with a fraction or an exponent has no counterpart among
  the values of the model and is not accepted.
\<close>

definition parse_number :: "string \<Rightarrow> (jsval \<times> string) option" where
  "parse_number s =
     (let negative = (s \<noteq> [] \<and> hd s = CHR ''-'');
          s1 = (if negative then tl s else s);
          ds = takeWhile is_digit s1;
          rest = dropWhile is_digit s1
      in if ds = [] then None
         else if 1 < length ds \<and> hd ds = CHR ''0'' then None
         else if rest \<noteq> [] \<and> (hd rest = CHR ''.'' \<or> hd rest = CHR ''e'' \<or> hd rest = CHR ''E'') then None
         else Some (VNum (if negative then - int (digits_value ds) else int (digits_value ds)), rest))"

text \<open>A repeated key keeps its first position and takes the last value.\<close>

fun object_put :: "(string \<times> jsval) list \<Rightarrow> string \<times> jsval \<Rightarrow> (string \<times> jsval) list" where
  "object_put [] (k, v) = [(k, v)]"
| "object_put ((k', v') # ps) (k, v) =
     (if k' = k then (k', v) # ps else (k', v') # object_put ps (k, v))"

definition make_object :: "(string \<times> jsval) list \<Rightarrow> jsval" where
  "make_object members = VObj (foldl object_put [] members)"

text \<open>
  The value at the start of a text and the text after it.  The first argument bounds
  the number of nested calls; one more than the length of the text is always enough
  (\<open>json_parse_fuel\<close> below).
\<close>

fun parse_value :: "nat \<Rightarrow> string \<Rightarrow> (jsval \<times> string) option"
  and parse_elements :: "nat \<Rightarrow> string \<Rightarrow> (jsval list \<times> string) option"
  and parse_members :: "nat \<Rightarrow> string \<Rightarrow> ((string \<times> jsval) list \<times> string) option"
where
  "parse_value 0 s = None"
| "parse_value (Suc n) s =
     (case skip_ws s of
        [] \<Rightarrow> None
      | c # r \<Rightarrow>
          if c = CHR ''{'' then
            (case skip_ws r of
               [] \<Rightarrow> None
             | c' # r' \<Rightarrow>
                 if c' = CHR ''}'' then Some (VObj [], r')
                 else (case parse_members n (c' # r') of
                         None \<Rightarrow> None
                       | Some (members, r'') \<Rightarrow> Some (make_object members, r'')))
          else if c = CHR ''['' then
            (case skip_ws r of
               [] \<Rightarrow> None
             | c' # r' \<Rightarrow>
                 if c' = CHR '']'' then Some (VArr [], r')
                 else (case parse_elements n (c' # r') of
                         None \<Rightarrow> None
                       | Some (elements, r'') \<Rightarrow> Some (VArr elements, r'')))
          else if c = CHR 0x22 then
            (case parse_string r of None \<Rightarrow> None | Some (str, r') \<Rightarrow> Some (VStr str, r'))
          else if take 4 (c # r) = ''true'' then Some (VBool True, drop 3 r)
          else if take 5 (c # r) = ''false'' then Some (VBool False, drop 4 r)
          else if take 4 (c # r) = ''null'' then Some (VNull, drop 3 r)
          else parse_number (c # r))"
| "parse_elements 0 s = None"
| "parse_elements (Suc n) s =
     (case parse_value n s of
        None \<Rightarrow> None
      | Some (v, r) \<Rightarrow>
          (case skip_ws r of
             [] \<Rightarrow> None
           | c # r' \<Rightarrow>
               if c = CHR '','' then
                 (case parse_elements n r' of
                    None \<Rightarrow> None
                  | Some (vs, r'') \<Rightarrow> Some (v # vs, r''))
               else if c = CHR '']'' then Some ([v], r')
               else None))"
| "parse_members 0 s = None"
| "parse_members (Suc n) s =
     (case skip_ws s of
        [] \<Rightarrow> None
      | c # r \<Rightarrow>
          if c \<noteq> CHR 0x22 then None
          else
            (case parse_string r of
               None \<Rightarrow> None
             | Some (k, r1) \<Rightarrow>
                 (case skip_ws r1 of
                    [] \<Rightarrow> None
                  | c1 # r2 \<Rightarrow>
                      if c1 \<noteq> CHR '':'' then None
                      else
                        (case parse_value n r2 of
                           None \<Rightarrow> None
                         | Some (v, r3) \<Rightarrow>
                             (case skip_ws r3 of
                                [] \<Rightarrow> None
                              | c3 # r4 \<Rightarrow>
                                  if c3 = CHR '','' then
                                    (case parse_members n r4 of
                                       None \<Rightarrow> None
                                     | Some (ms, r5) \<Rightarrow> Some ((k, v) # ms, r5))
                                  else if c3 = CHR ''}'' then Some ([(k, v)], r4)
                                  else None)))))"

text \<open>\<open>JSON.parse\<close>: one value, with nothing but white space after it.\<close>

definition json_parse :: "string \<Rightarrow> jsval option" where
  "json_parse s =
     (case parse_value (Suc (length s)) s of
        None \<Rightarrow> None
      | Some (v, r) \<Rightarrow> if skip_ws r = [] then Some v else None)"

section \<open>Session Store\<close>

text \<open>
  A path of the file system holds no file, a file that cannot be read, or a file with
  its text.  \<open>existsSync\<close> never raises; \<open>readFileSync\<close> raises (\<open>None\<close>) unless the
  file can be read.
\<close>

datatype file_node = Absent | Unreadable | Content string

type_synonym fs = "string \<Rightarrow> file_node"

definition existsSync :: "fs \<Rightarrow> string \<Rightarrow> bool" where
  "existsSync files p = (files p \<noteq> Absent)"

definition readFileSync :: "fs \<Rightarrow> string \<Rightarrow> string option" where
  "readFileSync files p = (case files p of Content s \<Rightarrow> Some s | _ \<Rightarrow> None)"

definition writeFileSync :: "fs \<Rightarrow> string \<Rightarrow> string \<Rightarrow> fs" where
  "writeFileSync files p s = files(p := Content s)"

definition credentialsFile :: string where
  "credentialsFile = ''./telegram_credentials.json''"

definition sessionFile :: string where
  "sessionFile = ''./telegram_session.txt''"

text \<open>
  \<open>JSON.parse\<close> is a parameter: \<open>None\<close> when it raises a \<open>SyntaxError\<close>.  Both
  functions catch every exception, log it, and fall through to the default.
\<close>

definition loadCredentials :: "(string \<Rightarrow> jsval option) \<Rightarrow> fs \<Rightarrow> jsval" where
  "loadCredentials JSON_parse files =
     (if existsSync files credentialsFile then
        (case readFileSync files credentialsFile of
           None \<Rightarrow> VNull
         | Some data \<Rightarrow> (case JSON_parse data of None \<Rightarrow> VNull | Some v \<Rightarrow> v))
      else VNull)"

definition loadSession :: "fs \<Rightarrow> string" where
  "loadSession files =
     (if existsSync files sessionFile then
        (case readFileSync files sessionFile of None \<Rightarrow> [] | Some data \<Rightarrow> trim data)
      else [])"

text \<open>
  The authentication script, from \<open>session.save()\<close> on: with a non-empty session
  string it writes the session file, then the credentials (the three answers typed at
  the prompt) as pretty-printed JSON.
\<close>

definition credentials_record :: "string \<Rightarrow> string \<Rightarrow> string \<Rightarrow> jsval" where
  "credentials_record apiId apiHash phoneNumber =
     VObj [(''apiId'', VStr apiId), (''apiHash'', VStr apiHash),
           (''phoneNumber'', VStr phoneNumber)]"

definition authenticate_save :: "fs \<Rightarrow> string \<Rightarrow> string \<Rightarrow> string \<Rightarrow> string \<Rightarrow> fs" where
  "authenticate_save files apiId apiHash phoneNumber sessionString =
     (if sessionString \<noteq> [] then
        writeFileSync (writeFileSync files ''./telegram_session.txt'' sessionString)
          ''./telegram_credentials.json''
          (JSON_stringify (credentials_record apiId apiHash phoneNumber))
      else files)"

section \<open>The messaging backend\<close>

text \<open>
  The client library is an external collaborator.  Its objects carry the data that the
  servers read from them; fields that are only passed through to the output are
  \<open>jsval\<close>s.
\<close>

text \<open>
  \<open>User firstName lastName username phone\<close>, \<open>Chat title participantsCount\<close> and
  \<open>Channel title username participantsCount\<close> are instances of \<open>Api.User\<close>,
  \<open>Api.Chat\<close> and \<open>Api.Channel\<close>; \<open>OtherEntity\<close> is an instance of any other class.
\<close>

datatype entity =
    User jsval jsval jsval jsval
  | Chat jsval jsval
  | Channel jsval jsval jsval
  | OtherEntity

text \<open>The \<open>from\<close> reference of a message: only \<open>PeerUser\<close> has a \<open>userId\<close>.\<close>

datatype peer = PeerUser int | PeerChat int | PeerChannel int

text \<open>The last message of a dialog: \<open>id\<close>, \<open>message\<close>, \<open>date\<close>.\<close>

datatype last_message = LastMessage jsval jsval jsval

record dialog =
  dialog_id :: "int option"
  dialog_title :: jsval
  dialog_isUser :: jsval
  dialog_isGroup :: jsval
  dialog_isChannel :: jsval
  dialog_unreadCount :: jsval
  dialog_entity :: "entity option"
  dialog_message :: "last_message option"

text \<open>The reply header of a message, with its \<open>replyToMsgId\<close>.\<close>

datatype reply_header = ReplyHeader jsval

record tg_message =
  msg_id :: jsval
  msg_message :: jsval
  msg_date :: jsval
  msg_fromId :: "peer option"
  msg_sender :: "entity option"
  msg_replyTo :: "reply_header option"
  msg_views :: jsval
  msg_forwards :: jsval

text \<open>The account's own user, as \<open>getMe\<close> returns it.\<close>

record me_user =
  me_id :: "int option"
  me_firstName :: jsval
  me_lastName :: jsval
  me_username :: jsval
  me_phone :: jsval
  me_bot :: jsval

text \<open>
  A client handle is the arguments it was constructed from: the session string, the
  parsed \<open>apiId\<close> (\<open>None\<close> for \<open>NaN\<close>), the \<open>apiHash\<close> and the number of retries.
\<close>

record telegram_client =
  cl_session :: string
  cl_apiId :: "int option"
  cl_apiHash :: jsval
  cl_connectionRetries :: nat

text \<open>Every use of the library is recorded, in order.\<close>

datatype call =
    New_StringSession string
  | New_TelegramClient telegram_client
  | Connect telegram_client
  | GetDialogs telegram_client jsval
  | GetEntity telegram_client jsval
  | GetMessages telegram_client entity jsval jsval
  | Invoke_SearchGlobal telegram_client jsval int int jsval
  | GetMe telegram_client

text \<open>
  The library and the two built-ins \<open>parseInt\<close> and \<open>JSON.parse\<close> are parameters.
  Each operation of the library answers from the calls made so far and its arguments:
  it raises (\<open>Some e\<close>, \<open>Inl e\<close>) or returns.
\<close>

record backend =
  parseInt :: "jsval \<Rightarrow> int option"
  JSON_parse :: "string \<Rightarrow> jsval option"
  new_StringSession :: "call list \<Rightarrow> string \<Rightarrow> thrown option"
  new_TelegramClient :: "call list \<Rightarrow> telegram_client \<Rightarrow> thrown option"
  client_connect :: "call list \<Rightarrow> telegram_client \<Rightarrow> thrown option"
  client_getDialogs :: "call list \<Rightarrow> telegram_client \<Rightarrow> jsval \<Rightarrow> thrown + dialog list"
  client_getEntity :: "call list \<Rightarrow> telegram_client \<Rightarrow> jsval \<Rightarrow> thrown + entity"
  client_getMessages ::
    "call list \<Rightarrow> telegram_client \<Rightarrow> entity \<Rightarrow> jsval \<Rightarrow> jsval \<Rightarrow> thrown + tg_message list"
  client_invoke_SearchGlobal ::
    "call list \<Rightarrow> telegram_client \<Rightarrow> jsval \<Rightarrow> jsval \<Rightarrow> thrown + (string \<times> jsval) list"
  client_getMe :: "call list \<Rightarrow> telegram_client \<Rightarrow> thrown + me_user"

section \<open>The chat reader\<close>

record content_item =
  item_type :: string
  item_text :: string

record envelope =
  content :: "content_item list"
  isError :: "bool option"

text \<open>The fields of the server object, and the record of the library calls made.\<close>

record server_state =
  client :: "telegram_client option"
  session :: string
  calls :: "call list"

definition initial_state :: server_state where
  "initial_state = \<lparr>client = None, session = [], calls = []\<rparr>"

type_synonym outcome = "(thrown + envelope) \<times> server_state"

definition text_content :: "string \<Rightarrow> content_item" where
  "text_content s = \<lparr>item_type = ''text'', item_text = s\<rparr>"

definition errorContent :: "string \<Rightarrow> envelope" where
  "errorContent errorMessage =
     \<lparr>content = [text_content (''Error: '' @ errorMessage)], isError = Some False\<rparr>"

definition log_call :: "server_state \<Rightarrow> call \<Rightarrow> server_state" where
  "log_call st c = st\<lparr>calls := calls st @ [c]\<rparr>"

subsection \<open>\<open>getDialogs\<close>\<close>

definition entity_detail :: "entity option \<Rightarrow> (string \<times> jsval) list" where
  "entity_detail entity =
     (case entity of
        Some (User firstName lastName username phone) \<Rightarrow>
          [(''user'', VObj [(''firstName'', firstName), (''lastName'', lastName),
                            (''username'', username), (''phone'', phone)])]
      | Some (Chat title participantsCount) \<Rightarrow>
          [(''chat'', VObj [(''title'', title), (''participantsCount'', participantsCount)])]
      | Some (Channel title username participantsCount) \<Rightarrow>
          [(''channel'', VObj [(''title'', title), (''username'', username),
                               (''participantsCount'', participantsCount)])]
      | _ \<Rightarrow> [])"

definition last_message_detail :: "last_message option \<Rightarrow> (string \<times> jsval) list" where
  "last_message_detail m =
     (case m of
        None \<Rightarrow> []
      | Some (LastMessage mid message date) \<Rightarrow>
          [(''lastMessage'', VObj [(''id'', mid), (''message'', message), (''date'', date)])])"

definition optional_toString :: "int option \<Rightarrow> jsval" where
  "optional_toString i = (case i of None \<Rightarrow> VUndefined | Some n \<Rightarrow> VStr (toString n))"

text \<open>The callback of \<open>dialogs.map\<close>: the properties of \<open>chatInfo\<close>, in order.\<close>

definition chatInfo :: "dialog \<Rightarrow> (string \<times> jsval) list" where
  "chatInfo d =
     [(''id'', optional_toString (dialog_id d)),
      (''title'', dialog_title d),
      (''isUser'', dialog_isUser d),
      (''isGroup'', dialog_isGroup d),
      (''isChannel'', dialog_isChannel d),
      (''unreadCount'', dialog_unreadCount d)]
     @ entity_detail (dialog_entity d)
     @ last_message_detail (dialog_message d)"

definition getDialogs_result :: "dialog list \<Rightarrow> jsval" where
  "getDialogs_result dialogs = VArr (map (\<lambda>d. VObj (chatInfo d)) dialogs)"

definition not_connected :: thrown where
  "not_connected = JsError ''Not connected to Telegram. Use connect_telegram first.''"

definition getDialogs :: "backend \<Rightarrow> server_state \<Rightarrow> args \<Rightarrow> outcome" where
  "getDialogs be st args =
     (case client st of
        None \<Rightarrow> (Inl not_connected, st)
      | Some c \<Rightarrow>
          (case args of
             None \<Rightarrow> (Inl (destructure_error ''limit''), st)
           | Some a \<Rightarrow>
               (let limit = destructure_default a ''limit'' (VNum 100);
                    st' = log_call st (GetDialogs c limit)
                in case client_getDialogs be (calls st) c limit of
                     Inl e \<Rightarrow> (Inl e, st')
                   | Inr dialogs \<Rightarrow>
                       (Inr \<lparr>content = [text_content (JSON_stringify (getDialogs_result dialogs))],
                             isError = Some False\<rparr>, st'))))"

subsection \<open>\<open>getMessages\<close>\<close>

text \<open>\<open>error.message\<close> inside a template literal, for a caught \<open>error: any\<close>.\<close>

definition error_text :: "thrown \<Rightarrow> string" where
  "error_text e = (case e of JsError m \<Rightarrow> m | NonError r \<Rightarrow> r)"

text \<open>\<open>(msg.fromId as PeerUser)?.userId?.toString()\<close>: the cast checks nothing.\<close>

definition fromId_value :: "peer option \<Rightarrow> jsval" where
  "fromId_value p =
     (case p of
        None \<Rightarrow> VUndefined
      | Some (PeerUser userId) \<Rightarrow> VStr (toString userId)
      | Some _ \<Rightarrow> VUndefined)"

fun entity_firstName :: "entity \<Rightarrow> jsval" where
  "entity_firstName (User firstName lastName username phone) = firstName"
| "entity_firstName e = VUndefined"

fun entity_lastName :: "entity \<Rightarrow> jsval" where
  "entity_lastName (User firstName lastName username phone) = lastName"
| "entity_lastName e = VUndefined"

fun entity_username :: "entity \<Rightarrow> jsval" where
  "entity_username (User firstName lastName username phone) = username"
| "entity_username (Channel title username participantsCount) = username"
| "entity_username e = VUndefined"

definition sender_value :: "entity option \<Rightarrow> jsval" where
  "sender_value s =
     (case s of
        None \<Rightarrow> VNull
      | Some e \<Rightarrow> VObj [(''firstName'', entity_firstName e), (''lastName'', entity_lastName e),
                         (''username'', entity_username e)])"

definition replyTo_value :: "reply_header option \<Rightarrow> jsval" where
  "replyTo_value r = (case r of None \<Rightarrow> VUndefined | Some (ReplyHeader replyToMsgId) \<Rightarrow> replyToMsgId)"

text \<open>The callback of \<open>messages.map\<close>: the properties of one output object, in order.\<close>

definition message_info :: "tg_message \<Rightarrow> (string \<times> jsval) list" where
  "message_info msg =
     [(''id'', msg_id msg),
      (''message'', msg_message msg),
      (''date'', msg_date msg),
      (''fromId'', fromId_value (msg_fromId msg)),
      (''sender'', sender_value (msg_sender msg)),
      (''replyTo'', replyTo_value (msg_replyTo msg)),
      (''views'', msg_views msg),
      (''forwards'', msg_forwards msg)]"

definition getMessages_result :: "tg_message list \<Rightarrow> jsval" where
  "getMessages_result messages = VArr (map (\<lambda>msg. VObj (message_info msg)) messages)"

definition getMessages :: "backend \<Rightarrow> server_state \<Rightarrow> args \<Rightarrow> outcome" where
  "getMessages be st args =
     (case client st of
        None \<Rightarrow> (Inl not_connected, st)
      | Some c \<Rightarrow>
          (case args of
             None \<Rightarrow> (Inl (destructure_error ''entityId''), st)
           | Some a \<Rightarrow>
               (let entityId = destructure a ''entityId'';
                    limit = destructure_default a ''limit'' (VNum 50);
                    offsetId = destructure a ''offsetId'';
                    st1 = log_call st (GetEntity c entityId)
                in case client_getEntity be (calls st) c entityId of
                     Inl e \<Rightarrow> (Inl (JsError (''Could not get messages: '' @ error_text e)), st1)
                   | Inr entity \<Rightarrow>
                       (let st2 = log_call st1 (GetMessages c entity limit offsetId)
                        in case client_getMessages be (calls st1) c entity limit offsetId of
                             Inl e \<Rightarrow>
                               (Inl (JsError (''Could not get messages: '' @ error_text e)), st2)
                           | Inr messages \<Rightarrow>
                               (Inr \<lparr>content =
                                       [text_content (JSON_stringify (getMessages_result messages))],
                                     isError = None\<rparr>, st2)))))"

subsection \<open>\<open>searchGlobal\<close>\<close>

definition searchGlobal :: "backend \<Rightarrow> server_state \<Rightarrow> args \<Rightarrow> outcome" where
  "searchGlobal be st args =
     (case client st of
        None \<Rightarrow> (Inl not_connected, st)
      | Some c \<Rightarrow>
          (case args of
             None \<Rightarrow> (Inl (destructure_error ''query''), st)
           | Some a \<Rightarrow>
               (let query = destructure a ''query'';
                    limit = destructure_default a ''limit'' (VNum 50);
                    st' = log_call st (Invoke_SearchGlobal c query 0 0 limit)
                in case client_invoke_SearchGlobal be (calls st) c query limit of
                     Inl e \<Rightarrow> (Inl (JsError (''Search failed: '' @ error_text e)), st')
                   | Inr result \<Rightarrow>
                       (Inr \<lparr>content = [text_content (JSON_stringify (VObj result))],
                             isError = Some False\<rparr>, st'))))"

subsection \<open>\<open>getMe\<close>\<close>

definition getMe_result :: "me_user \<Rightarrow> jsval" where
  "getMe_result me =
     VObj [(''id'', optional_toString (me_id me)),
           (''firstName'', me_firstName me),
           (''lastName'', me_lastName me),
           (''username'', me_username me),
           (''phone'', me_phone me),
           (''isBot'', me_bot me)]"

definition getMe :: "backend \<Rightarrow> server_state \<Rightarrow> outcome" where
  "getMe be st =
     (case client st of
        None \<Rightarrow> (Inl not_connected, st)
      | Some c \<Rightarrow>
          (let st' = log_call st (GetMe c)
           in case client_getMe be (calls st) c of
                Inl e \<Rightarrow> (Inl e, st')
              | Inr me \<Rightarrow>
                  (Inr \<lparr>content = [text_content (JSON_stringify (getMe_result me))],
                        isError = Some False\<rparr>, st')))"

subsection \<open>\<open>autoConnect\<close> and \<open>connectTelegram\<close>\<close>

text \<open>
  Both assign \<open>this.session\<close> once the session object is built and \<open>this.client\<close>
  once the client object is built, and only then call \<open>connect\<close>.
\<close>

definition autoConnect :: "backend \<Rightarrow> fs \<Rightarrow> server_state \<Rightarrow> outcome" where
  "autoConnect be files st =
     (let credentials = loadCredentials (JSON_parse be) files in
      if \<not> js_truthy credentials then
        (Inl (JsError ''No saved credentials found. Please run authentication script first.''), st)
      else
        (let sessionString = loadSession files in
         if sessionString = [] then
           (Inl (JsError ''No saved session found. Please run authentication script first.''), st)
         else
           (let st1 = log_call st (New_StringSession sessionString)
            in case new_StringSession be (calls st) sessionString of
                 Some e \<Rightarrow> (Inl e, st1)
               | None \<Rightarrow>
                   (let st2 = st1\<lparr>session := sessionString\<rparr>;
                        c = \<lparr>cl_session = sessionString,
                             cl_apiId = parseInt be (get_prop credentials ''apiId''),
                             cl_apiHash = get_prop credentials ''apiHash'',
                             cl_connectionRetries = 5\<rparr>;
                        st3 = log_call st2 (New_TelegramClient c)
                    in case new_TelegramClient be (calls st2) c of
                         Some e \<Rightarrow> (Inl e, st3)
                       | None \<Rightarrow>
                           (let st4 = st3\<lparr>client := Some c\<rparr>;
                                st5 = log_call st4 (Connect c)
                            in case client_connect be (calls st4) c of
                                 None \<Rightarrow>
                                   (Inr \<lparr>content = [text_content
                                           ''Successfully connected to Telegram using saved session!''],
                                         isError = None\<rparr>, st5)
                               | Some e \<Rightarrow>
                                   (Inl (JsError (''Auto-connection failed: '' @ error_text e)),
                                    st5))))))"

definition connectTelegram :: "backend \<Rightarrow> fs \<Rightarrow> server_state \<Rightarrow> args \<Rightarrow> outcome" where
  "connectTelegram be files st args =
     (case args of
        None \<Rightarrow> (Inl (destructure_error ''apiId''), st)
      | Some a \<Rightarrow>
          (let apiId = destructure a ''apiId'';
               apiHash = destructure a ''apiHash'';
               sessionString = loadSession files;
               st1 = log_call st (New_StringSession sessionString)
           in case new_StringSession be (calls st) sessionString of
                Some e \<Rightarrow> (Inl e, st1)
              | None \<Rightarrow>
                  (let st2 = st1\<lparr>session := sessionString\<rparr>;
                       c = \<lparr>cl_session = sessionString,
                            cl_apiId = parseInt be apiId,
                            cl_apiHash = apiHash,
                            cl_connectionRetries = 5\<rparr>;
                       st3 = log_call st2 (New_TelegramClient c)
                   in case new_TelegramClient be (calls st2) c of
                        Some e \<Rightarrow> (Inl e, st3)
                      | None \<Rightarrow>
                          (let st4 = st3\<lparr>client := Some c\<rparr>;
                               st5 = log_call st4 (Connect c)
                           in case client_connect be (calls st4) c of
                                None \<Rightarrow>
                                  (Inr \<lparr>content = [text_content
                                          ''Successfully connected to Telegram using existing session!''],
                                        isError = None\<rparr>, st5)
                              | Some e \<Rightarrow>
                                  (Inr \<lparr>content = [text_content
                                          ''Connection failed. Please ensure you have run the authentication script first to save your session.''],
                                        isError = None\<rparr>, st5)))))"

subsection \<open>The request handlers\<close>

record tool =
  tool_name :: string
  tool_description :: string
  tool_inputSchema :: jsval

definition string_property :: "string \<Rightarrow> string \<times> jsval" where
  "string_property k = (k, VObj [(''type'', VStr ''string'')])"

text \<open>The tools that the handler of the list request writes out.\<close>

definition listTools :: "tool list" where
  "listTools =
     [\<lparr>tool_name = ''auto_connect'',
       tool_description = ''Auto-connect using saved credentials and session'',
       tool_inputSchema = VObj [(''type'', VStr ''object''), (''properties'', VObj [])]\<rparr>,
      \<lparr>tool_name = ''connect_telegram'',
       tool_description = ''Connect with manual credentials (requires pre-auth)'',
       tool_inputSchema =
         VObj [(''type'', VStr ''object''),
               (''properties'', VObj [string_property ''apiId'', string_property ''apiHash'',
                                      string_property ''phoneNumber'']),
               (''required'', VArr [VStr ''apiId'', VStr ''apiHash'', VStr ''phoneNumber''])]\<rparr>]"

text \<open>The \<open>switch\<close> of the call handler; its \<open>default\<close> returns the error envelope.\<close>

definition dispatch :: "backend \<Rightarrow> fs \<Rightarrow> server_state \<Rightarrow> string \<Rightarrow> args \<Rightarrow> outcome" where
  "dispatch be files st name args =
     (if name = ''auto_connect'' then autoConnect be files st
      else if name = ''connect_telegram'' then connectTelegram be files st args
      else if name = ''get_dialogs'' then getDialogs be st args
      else if name = ''get_messages'' then getMessages be st args
      else if name = ''search_global'' then searchGlobal be st args
      else if name = ''get_me'' then getMe be st
      else (Inr (errorContent (''Unknown tool: '' @ name)), st))"

text \<open>\<open>error instanceof Error ? error.message : 'Unknown error'\<close>\<close>

definition error_message :: "thrown \<Rightarrow> string" where
  "error_message e = (case e of JsError m \<Rightarrow> m | NonError r \<Rightarrow> ''Unknown error'')"

definition callTool :: "backend \<Rightarrow> fs \<Rightarrow> server_state \<Rightarrow> string \<Rightarrow> args \<Rightarrow> envelope \<times> server_state" where
  "callTool be files st name args =
     (case dispatch be files st name args of
        (Inl e, st') \<Rightarrow> (errorContent (error_message e), st')
      | (Inr r, st') \<Rightarrow> (r, st'))"

definition case_labels :: "string list" where
  "case_labels = [''auto_connect'', ''connect_telegram'', ''get_dialogs'', ''get_messages'',
                  ''search_global'', ''get_me'']"

text \<open>
  The process: it answers one request at a time, each against the file system of that
  moment, starting from the state the constructor sets.
\<close>

datatype request = ListToolsRequest | CallToolRequest string args

datatype response = ToolList "tool list" | ToolResult envelope

definition handle_request :: "backend \<Rightarrow> fs \<Rightarrow> server_state \<Rightarrow> request \<Rightarrow> response \<times> server_state" where
  "handle_request be files st req =
     (case req of
        ListToolsRequest \<Rightarrow> (ToolList listTools, st)
      | CallToolRequest name args \<Rightarrow>
          (case callTool be files st name args of (r, st') \<Rightarrow> (ToolResult r, st')))"

fun run :: "backend \<Rightarrow> server_state \<Rightarrow> (fs \<times> request) list \<Rightarrow> server_state" where
  "run be st [] = st"
| "run be st ((files, req) # rest) = run be (snd (handle_request be files st req)) rest"

section \<open>The second chat reader\<close>

text \<open>
  The second server of the file has no \<open>auto_connect\<close> case and no credentials file;
  its \<open>connectTelegram\<close> also binds \<open>phoneNumber\<close>.  Its other operations and its
  tool list are written as in the first one.
\<close>

definition connectTelegram_v2 :: "backend \<Rightarrow> fs \<Rightarrow> server_state \<Rightarrow> args \<Rightarrow> outcome" where
  "connectTelegram_v2 be files st args =
     (case args of
        None \<Rightarrow> (Inl (destructure_error ''apiId''), st)
      | Some a \<Rightarrow>
          (let apiId = destructure a ''apiId'';
               apiHash = destructure a ''apiHash'';
               phoneNumber = destructure a ''phoneNumber'';
               sessionString = loadSession files;
               st1 = log_call st (New_StringSession sessionString)
           in case new_StringSession be (calls st) sessionString of
                Some e \<Rightarrow> (Inl e, st1)
              | None \<Rightarrow>
                  (let st2 = st1\<lparr>session := sessionString\<rparr>;
                       c = \<lparr>cl_session = sessionString,
                            cl_apiId = parseInt be apiId,
                            cl_apiHash = apiHash,
                            cl_connectionRetries = 5\<rparr>;
                       st3 = log_call st2 (New_TelegramClient c)
                   in case new_TelegramClient be (calls st2) c of
                        Some e \<Rightarrow> (Inl e, st3)
                      | None \<Rightarrow>
                          (let st4 = st3\<lparr>client := Some c\<rparr>;
                               st5 = log_call st4 (Connect c)
                           in case client_connect be (calls st4) c of
                                None \<Rightarrow>
                                  (Inr \<lparr>content = [text_content
                                          ''Successfully connected to Telegram using existing session!''],
                                        isError = None\<rparr>, st5)
                              | Some e \<Rightarrow>
                                  (Inr \<lparr>content = [text_content
                                          ''Connection failed. Please ensure you have run the authentication script first to save your session.''],
                                        isError = None\<rparr>, st5)))))"

definition dispatch_v2 :: "backend \<Rightarrow> fs \<Rightarrow> server_state \<Rightarrow> string \<Rightarrow> args \<Rightarrow> outcome" where
  "dispatch_v2 be files st name args =
     (if name = ''connect_telegram'' then connectTelegram_v2 be files st args
      else if name = ''get_dialogs'' then getDialogs be st args
      else if name = ''get_messages'' then getMessages be st args
      else if name = ''search_global'' then searchGlobal be st args
      else if name = ''get_me'' then getMe be st
      else (Inr (errorContent (''Unknown tool: '' @ name)), st))"

definition callTool_v2 :: "backend \<Rightarrow> fs \<Rightarrow> server_state \<Rightarrow> string \<Rightarrow> args \<Rightarrow> envelope \<times> server_state" where
  "callTool_v2 be files st name args =
     (case dispatch_v2 be files st name args of
        (Inl e, st') \<Rightarrow> (errorContent (error_message e), st')
      | (Inr r, st') \<Rightarrow> (r, st'))"

definition case_labels_v2 :: "string list" where
  "case_labels_v2 = [''connect_telegram'', ''get_dialogs'', ''get_messages'', ''search_global'',
                     ''get_me'']"

section \<open>The bot server\<close>

datatype bot_call =
    SendMessage jsval jsval "(string \<times> jsval) list"
  | GetUpdates jsval
  | SendPhoto jsval jsval "(string \<times> jsval) list"

text \<open>
  The bot library: \<open>sendMessage\<close> and \<open>sendPhoto\<close> return the \<open>message_id\<close> of the
  message sent, \<open>getUpdates\<close> the updates.
\<close>

record bot_backend =
  bot_sendMessage :: "bot_call list \<Rightarrow> jsval \<Rightarrow> jsval \<Rightarrow> (string \<times> jsval) list \<Rightarrow> thrown + int"
  bot_getUpdates :: "bot_call list \<Rightarrow> jsval \<Rightarrow> thrown + jsval list"
  bot_sendPhoto :: "bot_call list \<Rightarrow> jsval \<Rightarrow> jsval \<Rightarrow> (string \<times> jsval) list \<Rightarrow> thrown + int"

type_synonym bot_state = "bot_call list"

type_synonym bot_outcome = "(thrown + envelope) \<times> bot_state"

definition errorContent_bot :: "string \<Rightarrow> envelope" where
  "errorContent_bot errorMessage =
     \<lparr>content = [text_content (''Error: '' @ errorMessage)], isError = None\<rparr>"

definition sendTelegramMessage :: "bot_backend \<Rightarrow> bot_state \<Rightarrow> args \<Rightarrow> bot_outcome" where
  "sendTelegramMessage api st args =
     (case args of
        None \<Rightarrow> (Inl (destructure_error ''chatId''), st)
      | Some a \<Rightarrow>
          (let chatId = destructure a ''chatId'';
               message = destructure a ''message'';
               parseMode = destructure a ''parseMode'';
               options = (if js_truthy parseMode then [(''parse_mode'', parseMode)] else []);
               st' = st @ [SendMessage chatId message options]
           in case bot_sendMessage api st chatId message options of
                Inl e \<Rightarrow> (Inl e, st')
              | Inr message_id \<Rightarrow>
                  (Inr \<lparr>content = [text_content
                          (''Message sent successfully! Message ID: '' @ toString message_id)],
                        isError = None\<rparr>, st')))"

definition getTelegramUpdates :: "bot_backend \<Rightarrow> bot_state \<Rightarrow> args \<Rightarrow> bot_outcome" where
  "getTelegramUpdates api st args =
     (case args of
        None \<Rightarrow> (Inl (destructure_error ''limit''), st)
      | Some a \<Rightarrow>
          (let limit = destructure_default a ''limit'' (VNum 10);
               st' = st @ [GetUpdates limit]
           in case bot_getUpdates api st limit of
                Inl e \<Rightarrow> (Inl e, st')
              | Inr updates \<Rightarrow>
                  (Inr \<lparr>content = [text_content (JSON_stringify (VArr updates))],
                        isError = None\<rparr>, st')))"

definition sendTelegramPhoto :: "bot_backend \<Rightarrow> bot_state \<Rightarrow> args \<Rightarrow> bot_outcome" where
  "sendTelegramPhoto api st args =
     (case args of
        None \<Rightarrow> (Inl (destructure_error ''chatId''), st)
      | Some a \<Rightarrow>
          (let chatId = destructure a ''chatId'';
               photo = destructure a ''photo'';
               caption = destructure a ''caption'';
               options = (if js_truthy caption then [(''caption'', caption)] else []);
               st' = st @ [SendPhoto chatId photo options]
           in case bot_sendPhoto api st chatId photo options of
                Inl e \<Rightarrow> (Inl e, st')
              | Inr message_id \<Rightarrow>
                  (Inr \<lparr>content = [text_content
                          (''Photo sent successfully! Message ID: '' @ toString message_id)],
                        isError = None\<rparr>, st')))"

definition dispatch_bot :: "bot_backend \<Rightarrow> bot_state \<Rightarrow> string \<Rightarrow> args \<Rightarrow> bot_outcome" where
  "dispatch_bot api st name args =
     (if name = ''send_telegram_message'' then sendTelegramMessage api st args
      else if name = ''get_telegram_updates'' then getTelegramUpdates api st args
      else if name = ''send_telegram_photo'' then sendTelegramPhoto api st args
      else (let errorMessage = ''Unknown tool: '' @ name
            in (Inr (errorContent_bot errorMessage), st)))"

definition callTool_bot :: "bot_backend \<Rightarrow> bot_state \<Rightarrow> string \<Rightarrow> args \<Rightarrow> envelope \<times> bot_state" where
  "callTool_bot api st name args =
     (case dispatch_bot api st name args of
        (Inl e, st') \<Rightarrow> (errorContent_bot (error_message e), st')
      | (Inr r, st') \<Rightarrow> (r, st'))"

definition case_labels_bot :: "string list" where
  "case_labels_bot = [''send_telegram_message'', ''get_telegram_updates'', ''send_telegram_photo'']"

section \<open>Example collaborators\<close>

text \<open>A library in which every operation succeeds, except \<open>getMe\<close>.\<close>

definition example_backend :: backend where
  "example_backend =
     \<lparr>parseInt = (\<lambda>v. if v = VStr ''123'' then Some 123 else None),
      JSON_parse = json_parse,
      new_StringSession = (\<lambda>h s. None),
      new_TelegramClient = (\<lambda>h c. None),
      client_connect = (\<lambda>h c. None),
      client_getDialogs = (\<lambda>h c limit. Inr []),
      client_getEntity = (\<lambda>h c entityId. Inr OtherEntity),
      client_getMessages = (\<lambda>h c entity limit offsetId. Inr []),
      client_invoke_SearchGlobal = (\<lambda>h c query limit. Inr []),
      client_getMe = (\<lambda>h c. Inl (JsError ''AUTH_KEY_UNREGISTERED''))\<rparr>"

definition example_bot :: bot_backend where
  "example_bot =
     \<lparr>bot_sendMessage = (\<lambda>h chatId message options. Inr 1),
      bot_getUpdates = (\<lambda>h limit. Inr []),
      bot_sendPhoto = (\<lambda>h chatId photo options. Inl (JsError ''ETELEGRAM: 400 Bad Request''))\<rparr>"

definition no_files :: fs where
  "no_files = (\<lambda>p. Absent)"

text \<open>The credentials and the arguments of the examples.\<close>

definition example_credentials :: jsval where
  "example_credentials = credentials_record ''123'' ''abc'' ''+10000000000''"

definition credentials_only :: fs where
  "credentials_only = no_files(credentialsFile := Content (JSON_stringify example_credentials))"

definition args_with_phone :: "string \<rightharpoonup> jsval" where
  "args_with_phone = [''apiId'' \<mapsto> VStr ''123'', ''apiHash'' \<mapsto> VStr ''abc'',
                      ''phoneNumber'' \<mapsto> VStr ''+10000000000'']"

definition args_without_phone :: "string \<rightharpoonup> jsval" where
  "args_without_phone = [''apiId'' \<mapsto> VStr ''123'', ''apiHash'' \<mapsto> VStr ''abc'']"

text \<open>
  A client handle, the state in which it has been assigned, and libraries whose
  \<open>connect\<close> or \<open>getDialogs\<close> raise.
\<close>

definition example_client :: telegram_client where
  "example_client =
     \<lparr>cl_session = [], cl_apiId = Some 123, cl_apiHash = VStr ''abc'', cl_connectionRetries = 5\<rparr>"

definition client_assigned :: server_state where
  "client_assigned =
     \<lparr>client = Some example_client, session = [],
      calls = [New_StringSession [], New_TelegramClient example_client, Connect example_client]\<rparr>"

definition offline_backend :: backend where
  "offline_backend =
     example_backend
       \<lparr>client_connect := (\<lambda>h c. Some (JsError ''connect ETIMEDOUT'')),
        client_getDialogs := (\<lambda>h c limit. Inl (JsError ''Cannot send requests while disconnected''))\<rparr>"

definition flood_backend :: backend where
  "flood_backend =
     example_backend\<lparr>client_getDialogs := (\<lambda>h c limit. Inl (JsError ''FLOOD_WAIT_30''))\<rparr>"

definition alice_dialog :: dialog where
  "alice_dialog =
     \<lparr>dialog_id = Some 1001, dialog_title = VStr ''Alice'', dialog_isUser = VBool True,
      dialog_isGroup = VBool False, dialog_isChannel = VBool False, dialog_unreadCount = VNum 2,
      dialog_entity = Some (User (VStr ''Alice'') VUndefined (VStr ''alice'') (VStr ''15550100'')),
      dialog_message = None\<rparr>"

definition news_dialog :: dialog where
  "news_dialog =
     \<lparr>dialog_id = Some (- 1002), dialog_title = VStr ''News'', dialog_isUser = VBool False,
      dialog_isGroup = VBool False, dialog_isChannel = VBool True, dialog_unreadCount = VNum 0,
      dialog_entity = Some (Channel (VStr ''News'') (VStr ''news'') (VNum 40)),
      dialog_message = Some (LastMessage (VNum 9) (VStr ''hello'') (VNum 1700000000))\<rparr>"

definition user_message :: tg_message where
  "user_message =
     \<lparr>msg_id = VNum 7, msg_message = VStr ''hi'', msg_date = VNum 1700000000,
      msg_fromId = Some (PeerUser 555), msg_sender = None, msg_replyTo = None,
      msg_views = VUndefined, msg_forwards = VUndefined\<rparr>"

definition channel_post :: tg_message where
  "channel_post =
     \<lparr>msg_id = VNum 8, msg_message = VStr ''news'', msg_date = VNum 1700000001,
      msg_fromId = Some (PeerChannel 777), msg_sender = None, msg_replyTo = None,
      msg_views = VNum 3, msg_forwards = VUndefined\<rparr>"

definition messages_backend :: backend where
  "messages_backend =
     example_backend
       \<lparr>client_getMessages := (\<lambda>h c entity limit offsetId. Inr [user_message, channel_post])\<rparr>"

definition dialogs_backend :: backend where
  "dialogs_backend =
     example_backend\<lparr>client_getDialogs := (\<lambda>h c limit. Inr [alice_dialog, news_dialog])\<rparr>"

text \<open>The files that the authentication script leaves.\<close>

definition saved_files :: fs where
  "saved_files = authenticate_save no_files ''123'' ''abc'' ''+10000000000'' ''1AgAOMTQ5LjE1NA==''"

section \<open>Reading back JSON\<close>

text \<open>
  Every successful call of the reader consumes at least one character, and the number
  of characters consumed bounds the nesting of calls it needs.  So \<open>json_parse\<close>, which
  allows one more than the length of the text, returns what any larger bound returns.
\<close>

lemma skip_ws_length: "length (skip_ws s) \<le> length s"
  by (simp add: skip_ws_def length_dropWhile_le)

lemma combine_surrogates_length: "length (snd (combine_surrogates n rest)) \<le> length rest"
  by (auto simp add: combine_surrogates_def split: list.splits option.splits)

lemma parse_string_shorter: "parse_string s = Some (x, r) \<Longrightarrow> length r < length s"
proof (induction s arbitrary: x r rule: parse_string.induct)
  case 1
  then show ?case by simp
next
  case (2 c cs)
  show ?case
  proof (cases "c = CHR 0x22")
    case True
    with 2 show ?thesis by simp
  next
    case quote: False
    show ?thesis
    proof (cases "c = CHR 0x5C")
      case False
      with quote 2 show ?thesis
        by (auto split: if_splits option.splits)
    next
      case True
      then obtain e cs' where cs: "cs = e # cs'"
        using 2(4) quote by (cases cs) auto
      show ?thesis
      proof (cases "e = CHR ''u''")
        case False
        from 2(4) quote True cs False obtain y s' where
          e: "simple_escape e = Some y" and p: "parse_string cs' = Some (s', r)"
          by (auto split: option.splits)
        from "2.IH"(2) [OF quote True cs False e p]
        have "length r < length cs'" .
        then show ?thesis using cs by simp
      next
        case u: True
        from 2(4) quote True cs u obtain n rest s' where
          h: "hex4 cs' = Some (n, rest)" and
          p: "parse_string (snd (combine_surrogates n (drop 4 cs'))) = Some (s', r)"
          by (auto split: option.splits)
        from "2.IH"(1) [OF quote True cs u h refl p]
        have "length r < length (snd (combine_surrogates n (drop 4 cs')))" .
        also have "\<dots> \<le> length (drop 4 cs')" by (rule combine_surrogates_length)
        finally show ?thesis using cs by simp
      qed
    qed
  qed
qed

lemma skip_ws_Cons: "skip_ws s = c # r \<Longrightarrow> length r < length s"
  using skip_ws_length [of s] by simp

lemma parse_number_shorter: "parse_number s = Some (v, r) \<Longrightarrow> length r < length s"
proof -
  assume a: "parse_number s = Some (v, r)"
  define s1 where "s1 = (if s \<noteq> [] \<and> hd s = CHR ''-'' then tl s else s)"
  have l: "length s1 \<le> length s"
    by (simp add: s1_def)
  have r: "r = dropWhile is_digit s1" and d: "takeWhile is_digit s1 \<noteq> []"
    using a by (auto simp add: parse_number_def Let_def s1_def split: if_splits)
  have "length (takeWhile is_digit s1) + length (dropWhile is_digit s1) = length s1"
    by (metis length_append takeWhile_dropWhile_id)
  then have "length r < length s1"
    using r d by (cases "takeWhile is_digit s1") auto
  then show ?thesis
    using l by simp
qed

lemma parse_shorter:
  "(\<forall>s v r. parse_value n s = Some (v, r) \<longrightarrow> length r < length s)
   \<and> (\<forall>s vs r. parse_elements n s = Some (vs, r) \<longrightarrow> length r < length s)
   \<and> (\<forall>s ms r. parse_members n s = Some (ms, r) \<longrightarrow> length r < length s)"
proof (induction n)
  case 0
  show ?case by simp
next
  case (Suc n)
  then have v: "\<And>s v r. parse_value n s = Some (v, r) \<Longrightarrow> length r < length s"
    and e: "\<And>s vs r. parse_elements n s = Some (vs, r) \<Longrightarrow> length r < length s"
    and m: "\<And>s ms r. parse_members n s = Some (ms, r) \<Longrightarrow> length r < length s"
    by blast+
  have for_value: "length r < length s" if a: "parse_value (Suc n) s = Some (v, r)" for s v r
  proof -
    from a obtain c t where sk: "skip_ws s = c # t"
      by (cases "skip_ws s") auto
    have t: "length t < length s" using sk by (rule skip_ws_Cons)
    consider (obj) "c = CHR ''{''" | (arr) "c \<noteq> CHR ''{''" "c = CHR ''[''"
      | (str) "c \<noteq> CHR ''{''" "c \<noteq> CHR ''[''" "c = CHR 0x22"
      | (other) "c \<noteq> CHR ''{''" "c \<noteq> CHR ''[''" "c \<noteq> CHR 0x22"
      by blast
    then show ?thesis
    proof cases
      case obj
      from a sk obj obtain c' t' where sk': "skip_ws t = c' # t'"
        by (cases "skip_ws t") auto
      have t': "length t' < length t" using sk' by (rule skip_ws_Cons)
      show ?thesis
      proof (cases "c' = CHR ''}''")
        case True
        with a sk obj sk' have "r = t'" by simp
        with t t' show ?thesis by simp
      next
        case False
        with a sk obj sk' obtain ms where "parse_members n (c' # t') = Some (ms, r)"
          by (auto split: option.splits)
        from m [OF this] t t' show ?thesis by simp
      qed
    next
      case arr
      from a sk arr obtain c' t' where sk': "skip_ws t = c' # t'"
        by (cases "skip_ws t") auto
      have t': "length t' < length t" using sk' by (rule skip_ws_Cons)
      show ?thesis
      proof (cases "c' = CHR '']''")
        case True
        with a sk arr sk' have "r = t'" by simp
        with t t' show ?thesis by simp
      next
        case False
        with a sk arr sk' obtain vs where "parse_elements n (c' # t') = Some (vs, r)"
          by (auto split: option.splits)
        from e [OF this] t t' show ?thesis by simp
      qed
    next
      case str
      with a sk obtain x where "parse_string t = Some (x, r)"
        by (auto split: option.splits)
      from parse_string_shorter [OF this] t show ?thesis by simp
    next
      case other
      with a sk have "r = drop 3 t \<or> r = drop 4 t \<or> parse_number (c # t) = Some (v, r)"
        by (auto split: if_splits)
      then show ?thesis
        using t parse_number_shorter [of "c # t" v r] by auto
    qed
  qed
  have for_elements: "length r < length s" if a: "parse_elements (Suc n) s = Some (vs, r)" for s vs r
  proof -
    from a obtain x t where p: "parse_value n s = Some (x, t)"
      by (auto split: option.splits)
    have t: "length t < length s" using p by (rule v)
    from a p obtain c t' where sk: "skip_ws t = c # t'"
      by (cases "skip_ws t") auto
    have t': "length t' < length t" using sk by (rule skip_ws_Cons)
    show ?thesis
    proof (cases "c = CHR '',''")
      case True
      with a p sk obtain ws where "parse_elements n t' = Some (ws, r)"
        by (auto split: option.splits)
      from e [OF this] t t' show ?thesis by simp
    next
      case False
      with a p sk have "r = t'" by (auto split: if_splits)
      with t t' show ?thesis by simp
    qed
  qed
  have for_members: "length r < length s" if a: "parse_members (Suc n) s = Some (ms, r)" for s ms r
  proof -
    from a obtain c t where sk: "skip_ws s = c # t"
      by (cases "skip_ws s") auto
    have t: "length t < length s" using sk by (rule skip_ws_Cons)
    from a sk obtain k r1 where q: "c = CHR 0x22" and ps: "parse_string t = Some (k, r1)"
      by (auto split: if_splits option.splits)
    have r1: "length r1 < length t" using ps by (rule parse_string_shorter)
    from a sk q ps obtain c1 r2 where sk1: "skip_ws r1 = c1 # r2"
      by (cases "skip_ws r1") auto
    have r2: "length r2 < length r1" using sk1 by (rule skip_ws_Cons)
    from a sk q ps sk1 obtain x r3 where colon: "c1 = CHR '':''" and pv: "parse_value n r2 = Some (x, r3)"
      by (auto split: if_splits option.splits)
    have r3: "length r3 < length r2" using pv by (rule v)
    from a sk q ps sk1 colon pv obtain c3 r4 where sk3: "skip_ws r3 = c3 # r4"
      by (cases "skip_ws r3") auto
    have r4: "length r4 < length r3" using sk3 by (rule skip_ws_Cons)
    show ?thesis
    proof (cases "c3 = CHR '',''")
      case True
      with a sk q ps sk1 colon pv sk3 obtain ws where "parse_members n r4 = Some (ws, r)"
        by (auto split: option.splits)
      from m [OF this] t r1 r2 r3 r4 show ?thesis by simp
    next
      case False
      with a sk q ps sk1 colon pv sk3 have "r = r4" by (auto split: if_splits)
      with t r1 r2 r3 r4 show ?thesis by simp
    qed
  qed
  show ?case
    using for_value for_elements for_members by blast
qed

lemma parse_fuel:
  "(\<forall>s v r m. parse_value n s = Some (v, r) \<longrightarrow> length s - length r \<le> m \<longrightarrow>
        parse_value m s = Some (v, r))
   \<and> (\<forall>s vs r m. parse_elements n s = Some (vs, r) \<longrightarrow> length s - length r \<le> m \<longrightarrow>
        parse_elements m s = Some (vs, r))
   \<and> (\<forall>s ms r m. parse_members n s = Some (ms, r) \<longrightarrow> length s - length r \<le> m \<longrightarrow>
        parse_members m s = Some (ms, r))"
proof (induction n)
  case 0
  show ?case by simp
next
  case (Suc n)
  then have v: "\<And>s v r m. parse_value n s = Some (v, r) \<Longrightarrow> length s - length r \<le> m \<Longrightarrow>
        parse_value m s = Some (v, r)"
    and e: "\<And>s vs r m. parse_elements n s = Some (vs, r) \<Longrightarrow> length s - length r \<le> m \<Longrightarrow>
        parse_elements m s = Some (vs, r)"
    and m: "\<And>s ms r m. parse_members n s = Some (ms, r) \<Longrightarrow> length s - length r \<le> m \<Longrightarrow>
        parse_members m s = Some (ms, r)"
    by blast+
  have for_value: "parse_value k s = Some (x, r)"
    if a: "parse_value (Suc n) s = Some (x, r)" and k: "length s - length r \<le> k" for s x r k
  proof -
    have lr: "length r < length s"
      using a parse_shorter [of "Suc n"] by blast
    then obtain k' where k': "k = Suc k'"
      using k by (cases k) auto
    from a obtain c t where sk: "skip_ws s = c # t"
      by (cases "skip_ws s") auto
    have t: "length t < length s" using sk by (rule skip_ws_Cons)
    consider (obj) "c = CHR ''{''" | (arr) "c \<noteq> CHR ''{''" "c = CHR ''[''"
      | (other) "c \<noteq> CHR ''{''" "c \<noteq> CHR ''[''"
      by blast
    then show ?thesis
    proof cases
      case obj
      from a sk obj obtain c' t' where sk': "skip_ws t = c' # t'"
        by (cases "skip_ws t") auto
      have t': "length t' < length t" using sk' by (rule skip_ws_Cons)
      show ?thesis
      proof (cases "c' = CHR ''}''")
        case True
        with a sk obj sk' show ?thesis by (simp add: k')
      next
        case False
        with a sk obj sk' obtain ms where
          pm: "parse_members n (c' # t') = Some (ms, r)" and x: "x = make_object ms"
          by (auto split: option.splits)
        have "length (c' # t') - length r \<le> k'"
          using k k' t t' by simp
        from m [OF pm this] sk obj sk' False x show ?thesis
          by (simp add: k')
      qed
    next
      case arr
      from a sk arr obtain c' t' where sk': "skip_ws t = c' # t'"
        by (cases "skip_ws t") auto
      have t': "length t' < length t" using sk' by (rule skip_ws_Cons)
      show ?thesis
      proof (cases "c' = CHR '']''")
        case True
        with a sk arr sk' show ?thesis by (simp add: k')
      next
        case False
        with a sk arr sk' obtain vs where
          pe: "parse_elements n (c' # t') = Some (vs, r)" and x: "x = VArr vs"
          by (auto split: option.splits)
        have "length (c' # t') - length r \<le> k'"
          using k k' t t' by simp
        from e [OF pe this] sk arr sk' False x show ?thesis
          by (simp add: k')
      qed
    next
      case other
      with a sk show ?thesis by (simp add: k')
    qed
  qed
  have for_elements: "parse_elements k s = Some (vs, r)"
    if a: "parse_elements (Suc n) s = Some (vs, r)" and k: "length s - length r \<le> k" for s vs r k
  proof -
    have lr: "length r < length s"
      using a parse_shorter [of "Suc n"] by blast
    then obtain k' where k': "k = Suc k'"
      using k by (cases k) auto
    from a obtain x t where p: "parse_value n s = Some (x, t)"
      by (auto split: option.splits)
    have t: "length t < length s"
      using p parse_shorter [of n] by blast
    from a p obtain c t' where sk: "skip_ws t = c # t'"
      by (cases "skip_ws t") auto
    have t': "length t' < length t" using sk by (rule skip_ws_Cons)
    show ?thesis
    proof (cases "c = CHR '',''")
      case True
      with a p sk obtain ws where pe: "parse_elements n t' = Some (ws, r)" and vs: "vs = x # ws"
        by (auto split: option.splits)
      have r: "length r < length t'"
        using pe parse_shorter [of n] by blast
      have "length s - length t \<le> k'" "length t' - length r \<le> k'"
        using k k' t t' r by simp_all
      from v [OF p this(1)] e [OF pe this(2)] sk True vs show ?thesis
        by (simp add: k')
    next
      case False
      with a p sk have r: "r = t'" and b: "c = CHR '']''" and vs: "vs = [x]"
        by (auto split: if_splits)
      have "length s - length t \<le> k'"
        using k k' t t' r by simp
      from v [OF p this] sk b r vs show ?thesis
        by (simp add: k')
    qed
  qed
  have for_members: "parse_members k s = Some (ms, r)"
    if a: "parse_members (Suc n) s = Some (ms, r)" and k: "length s - length r \<le> k" for s ms r k
  proof -
    have lr: "length r < length s"
      using a parse_shorter [of "Suc n"] by blast
    then obtain k' where k': "k = Suc k'"
      using k by (cases k) auto
    from a obtain c t where sk: "skip_ws s = c # t"
      by (cases "skip_ws s") auto
    have t: "length t < length s" using sk by (rule skip_ws_Cons)
    from a sk obtain key r1 where q: "c = CHR 0x22" and ps: "parse_string t = Some (key, r1)"
      by (auto split: if_splits option.splits)
    have r1: "length r1 < length t" using ps by (rule parse_string_shorter)
    from a sk q ps obtain c1 r2 where sk1: "skip_ws r1 = c1 # r2"
      by (cases "skip_ws r1") auto
    have r2: "length r2 < length r1" using sk1 by (rule skip_ws_Cons)
    from a sk q ps sk1 obtain x r3 where
      colon: "c1 = CHR '':''" and pv: "parse_value n r2 = Some (x, r3)"
      by (auto split: if_splits option.splits)
    have r3: "length r3 < length r2"
      using pv parse_shorter [of n] by blast
    from a sk q ps sk1 colon pv obtain c3 r4 where sk3: "skip_ws r3 = c3 # r4"
      by (cases "skip_ws r3") auto
    have r4: "length r4 < length r3" using sk3 by (rule skip_ws_Cons)
    show ?thesis
    proof (cases "c3 = CHR '',''")
      case True
      with a sk q ps sk1 colon pv sk3 obtain ws where
        pm: "parse_members n r4 = Some (ws, r)" and ms: "ms = (key, x) # ws"
        by (auto split: option.splits)
      have r: "length r < length r4"
        using pm parse_shorter [of n] by blast
      have "length r2 - length r3 \<le> k'" "length r4 - length r \<le> k'"
        using k k' t r1 r2 r3 r4 r by simp_all
      from v [OF pv this(1)] m [OF pm this(2)] sk q ps sk1 colon sk3 True ms show ?thesis
        by (simp add: k')
    next
      case False
      with a sk q ps sk1 colon pv sk3 have r: "r = r4" and b: "c3 = CHR ''}''"
        and ms: "ms = [(key, x)]"
        by (auto split: if_splits)
      have "length r2 - length r3 \<le> k'"
        using k k' t r1 r2 r3 r4 r by simp
      from v [OF pv this] sk q ps sk1 colon sk3 b r ms show ?thesis
        by (simp add: k')
    qed
  qed
  show ?case
    using for_value for_elements for_members by blast
qed

lemma json_parse_fuel:
  assumes "parse_value n s = Some (v, r)"
  shows "parse_value (Suc (length s)) s = Some (v, r)"
proof -
  have "length s - length r \<le> Suc (length s)" by simp
  with assms parse_fuel [of n] show ?thesis by blast
qed

text \<open>
  Reading back a string that \<open>json_quote\<close> wrote: every escape that \<open>json_escape\<close>
  produces is undone by \<open>parse_string\<close>.
\<close>

lemma hex_value_hex_digit: "k < 16 \<Longrightarrow> hex_value (hex_digit k) = Some k"
proof -
  assume "k < 16"
  then have "k = 0 \<or> k = 1 \<or> k = 2 \<or> k = 3 \<or> k = 4 \<or> k = 5 \<or> k = 6 \<or> k = 7 \<or> k = 8
      \<or> k = 9 \<or> k = 10 \<or> k = 11 \<or> k = 12 \<or> k = 13 \<or> k = 14 \<or> k = 15"
    by arith
  then show ?thesis
    by (elim disjE) (simp_all add: hex_value_def hex_digit_def)
qed

lemma parse_string_escaped:
  "parse_string (concat (map json_escape s) @ CHR 0x22 # rest) = Some (s, rest)"
proof (induction s)
  case Nil
  then show ?case by simp
next
  case (Cons c s)
  show ?case
  proof (cases "(of_char c :: nat) < 32")
    case True
    then have h: "hex_value (hex_digit (of_char c div 16)) = Some (of_char c div 16)"
      "hex_value (hex_digit (of_char c mod 16)) = Some (of_char c mod 16)"
      by (simp_all add: hex_value_hex_digit)
    have z: "hex_value CHR ''0'' = Some 0" by (simp add: hex_value_def)
    have q: "c \<noteq> CHR 0x22" "c \<noteq> CHR 0x5C" using True by auto
    have e: "utf8_encode (of_char c) = [c]" using True by (simp add: utf8_encode_def)
    have p: "combine_surrogates (of_char c) r = (of_char c, r)" for r
      using True by (simp add: combine_surrogates_def)
    show ?thesis
      using True h z q e p Cons.IH
      by (auto simp add: json_escape_def simple_escape_def)
  next
    case False
    then show ?thesis
      using Cons.IH by (auto simp add: json_escape_def simple_escape_def)
  qed
qed

text \<open>
  Reading back the credentials file: the three members, each a quoted key, a colon, a
  space and a quoted string, separated by commas and indented by two spaces.
\<close>

lemma parse_value_quoted:
  "parse_value (Suc n) (json_quote s @ rest) = Some (VStr s, rest)"
  using parse_string_escaped [of s rest]
  by (simp add: json_quote_def skip_ws_def json_whitespace_def)

lemma skip_ws_quoted: "skip_ws (json_quote s @ rest) = json_quote s @ rest"
  by (simp add: skip_ws_def json_quote_def json_whitespace_def)

lemma skip_ws_indent:
  "skip_ws (CHR 0x0A # CHR '' '' # CHR '' '' # json_quote s @ rest) = json_quote s @ rest"
  using skip_ws_quoted [of s rest] by (simp add: skip_ws_def json_whitespace_def)

lemma json_quote_Cons: "\<exists>r. json_quote s @ rest = CHR 0x22 # r \<and> parse_string r = Some (s, rest)"
  using parse_string_escaped [of s rest] by (simp add: json_quote_def)

lemma parse_members_more:
  assumes "skip_ws s = json_quote k @ CHR '':'' # CHR '' '' # json_quote v @ CHR '','' # tail"
  shows "parse_members (Suc (Suc n)) s =
           (case parse_members (Suc n) tail of
              None \<Rightarrow> None
            | Some (ms, r) \<Rightarrow> Some ((k, VStr v) # ms, r))"
proof -
  obtain r where r: "skip_ws s = CHR 0x22 # r"
      "parse_string r = Some (k, CHR '':'' # CHR '' '' # json_quote v @ CHR '','' # tail)"
    using json_quote_Cons [of k "CHR '':'' # CHR '' '' # json_quote v @ CHR '','' # tail"] assms
    by auto
  have v: "parse_value (Suc n) (CHR '' '' # json_quote v @ CHR '','' # tail)
      = Some (VStr v, CHR '','' # tail)"
    using parse_value_quoted [of n v "CHR '','' # tail"]
    by (simp add: skip_ws_def json_whitespace_def)
  show ?thesis
    using r v by (simp add: skip_ws_def json_whitespace_def)
qed

lemma parse_members_last:
  assumes "skip_ws s = json_quote k @ CHR '':'' # CHR '' '' # json_quote v @ CHR 0x0A # CHR ''}'' # rest"
  shows "parse_members (Suc (Suc n)) s = Some ([(k, VStr v)], rest)"
proof -
  obtain r where r: "skip_ws s = CHR 0x22 # r"
      "parse_string r = Some (k, CHR '':'' # CHR '' '' # json_quote v @ CHR 0x0A # CHR ''}'' # rest)"
    using json_quote_Cons [of k "CHR '':'' # CHR '' '' # json_quote v @ CHR 0x0A # CHR ''}'' # rest"]
      assms
    by auto
  have v: "parse_value (Suc n) (CHR '' '' # json_quote v @ CHR 0x0A # CHR ''}'' # rest)
      = Some (VStr v, CHR 0x0A # CHR ''}'' # rest)"
    using parse_value_quoted [of n v "CHR 0x0A # CHR ''}'' # rest"]
    by (simp add: skip_ws_def json_whitespace_def)
  show ?thesis
    using r v by (simp add: skip_ws_def json_whitespace_def)
qed

lemma stringify_credentials:
  "JSON_stringify (credentials_record apiId apiHash phoneNumber) =
     CHR ''{'' # CHR 0x0A # CHR '' '' # CHR '' '' #
       (json_quote ''apiId'' @ CHR '':'' # CHR '' '' # json_quote apiId @ CHR '','' #
         (CHR 0x0A # CHR '' '' # CHR '' '' #
           (json_quote ''apiHash'' @ CHR '':'' # CHR '' '' # json_quote apiHash @ CHR '','' #
             (CHR 0x0A # CHR '' '' # CHR '' '' #
               (json_quote ''phoneNumber'' @ CHR '':'' # CHR '' '' # json_quote phoneNumber
                  @ CHR 0x0A # CHR ''}'' # [])))))"
  by (simp add: JSON_stringify_def credentials_record_def)

lemma parse_members_credentials:
  "parse_members (Suc (Suc (Suc (Suc n))))
     (json_quote ''apiId'' @ CHR '':'' # CHR '' '' # json_quote apiId @ CHR '','' #
         (CHR 0x0A # CHR '' '' # CHR '' '' #
           (json_quote ''apiHash'' @ CHR '':'' # CHR '' '' # json_quote apiHash @ CHR '','' #
             (CHR 0x0A # CHR '' '' # CHR '' '' #
               (json_quote ''phoneNumber'' @ CHR '':'' # CHR '' '' # json_quote phoneNumber
                  @ CHR 0x0A # CHR ''}'' # rest)))))
   = Some ([(''apiId'', VStr apiId), (''apiHash'', VStr apiHash),
            (''phoneNumber'', VStr phoneNumber)], rest)"
proof -
  let ?m3 = "CHR 0x0A # CHR '' '' # CHR '' '' #
      (json_quote ''phoneNumber'' @ CHR '':'' # CHR '' '' # json_quote phoneNumber
         @ CHR 0x0A # CHR ''}'' # rest)"
  let ?m2 = "CHR 0x0A # CHR '' '' # CHR '' '' #
      (json_quote ''apiHash'' @ CHR '':'' # CHR '' '' # json_quote apiHash @ CHR '','' # ?m3)"
  let ?m1 = "json_quote ''apiId'' @ CHR '':'' # CHR '' '' # json_quote apiId @ CHR '','' # ?m2"
  have s3: "skip_ws ?m3 = json_quote ''phoneNumber'' @ CHR '':'' # CHR '' '' #
      json_quote phoneNumber @ CHR 0x0A # CHR ''}'' # rest"
    by (rule skip_ws_indent)
  have s2: "skip_ws ?m2 = json_quote ''apiHash'' @ CHR '':'' # CHR '' '' #
      json_quote apiHash @ CHR '','' # ?m3"
    by (rule skip_ws_indent)
  have s1: "skip_ws ?m1 = ?m1"
    by (rule skip_ws_quoted)
  have third: "parse_members (Suc (Suc n)) ?m3 = Some ([(''phoneNumber'', VStr phoneNumber)], rest)"
    by (rule parse_members_last [OF s3])
  have second: "parse_members (Suc (Suc (Suc n))) ?m2
      = Some ([(''apiHash'', VStr apiHash), (''phoneNumber'', VStr phoneNumber)], rest)"
    unfolding parse_members_more [OF s2] third by simp
  show ?thesis
    unfolding parse_members_more [OF s1] second by simp
qed

lemma json_parse_credentials:
  "json_parse (JSON_stringify (credentials_record apiId apiHash phoneNumber))
     = Some (credentials_record apiId apiHash phoneNumber)"
proof -
  let ?body = "json_quote ''apiId'' @ CHR '':'' # CHR '' '' # json_quote apiId @ CHR '','' #
         (CHR 0x0A # CHR '' '' # CHR '' '' #
           (json_quote ''apiHash'' @ CHR '':'' # CHR '' '' # json_quote apiHash @ CHR '','' #
             (CHR 0x0A # CHR '' '' # CHR '' '' #
               (json_quote ''phoneNumber'' @ CHR '':'' # CHR '' '' # json_quote phoneNumber
                  @ CHR 0x0A # CHR ''}'' # []))))"
  have shape: "JSON_stringify (credentials_record apiId apiHash phoneNumber)
      = CHR ''{'' # CHR 0x0A # CHR '' '' # CHR '' '' # ?body"
    by (rule stringify_credentials)
  obtain r where body: "?body = CHR 0x22 # r"
    using json_quote_Cons [of "''apiId''"] by metis
  have len: "length (CHR ''{'' # CHR 0x0A # CHR '' '' # CHR '' '' # ?body)
      = Suc (Suc (Suc (Suc (Suc (length r)))))"
    unfolding body by simp
  have skip: "skip_ws (CHR 0x0A # CHR '' '' # CHR '' '' # ?body) = CHR 0x22 # r"
    unfolding body by (simp add: skip_ws_def json_whitespace_def)
  have open_brace: "skip_ws (CHR ''{'' # x) = CHR ''{'' # x" for x
    by (simp add: skip_ws_def json_whitespace_def)
  have "parse_value (Suc (Suc (Suc (Suc (Suc (Suc (length r)))))))
          (CHR ''{'' # CHR 0x0A # CHR '' '' # CHR '' '' # ?body)
        = (case parse_members (Suc (Suc (Suc (Suc (Suc (length r)))))) (CHR 0x22 # r) of
             None \<Rightarrow> None
           | Some (members, r'') \<Rightarrow> Some (make_object members, r''))"
    unfolding parse_value.simps open_brace list.case skip by simp
  also have "\<dots> = Some (credentials_record apiId apiHash phoneNumber, [])"
    using parse_members_credentials [of "Suc (length r)" apiId apiHash phoneNumber "[]"]
    unfolding body by (simp add: make_object_def credentials_record_def del: parse_members.simps)
  finally show ?thesis
    unfolding json_parse_def shape len by (simp add: skip_ws_def)
qed

section \<open>Unknown tools\<close>

text \<open>
  Claim C2.  For a tool name that is none of the case labels of the dispatch switch,
  \<open>callTool\<close> returns the error envelope whose text is \<open>Error: Unknown tool: \<close>
  followed by the name, and the state, with its record of library calls, is the one
  before the request: no operation of the adapter has run.  This holds for the two chat
  readers and for the bot server.
\<close>

theorem unknown_tool:
  "(name \<notin> set case_labels \<longrightarrow>
      callTool be files st name args =
        (\<lparr>content = [\<lparr>item_type = ''text'', item_text = ''Error: Unknown tool: '' @ name\<rparr>],
          isError = Some False\<rparr>, st))
   \<and> (name \<notin> set case_labels_v2 \<longrightarrow>
      callTool_v2 be files st name args =
        (\<lparr>content = [\<lparr>item_type = ''text'', item_text = ''Error: Unknown tool: '' @ name\<rparr>],
          isError = Some False\<rparr>, st))
   \<and> (name \<notin> set case_labels_bot \<longrightarrow>
      callTool_bot api bst name args =
        (\<lparr>content = [\<lparr>item_type = ''text'', item_text = ''Error: Unknown tool: '' @ name\<rparr>],
          isError = None\<rparr>, bst))"
  by (simp add: case_labels_def case_labels_v2_def case_labels_bot_def callTool_def callTool_v2_def
      callTool_bot_def dispatch_def dispatch_v2_def dispatch_bot_def errorContent_def
      errorContent_bot_def text_content_def)

theorem unknown_tool_witness:
  "''delete_account'' \<notin> set case_labels
   \<and> ''delete_account'' \<notin> set case_labels_v2
   \<and> ''delete_account'' \<notin> set case_labels_bot
   \<and> callTool example_backend no_files initial_state ''delete_account'' None =
        (\<lparr>content = [\<lparr>item_type = ''text'', item_text = ''Error: Unknown tool: delete_account''\<rparr>],
          isError = Some False\<rparr>, initial_state)
   \<and> callTool_v2 example_backend no_files initial_state ''delete_account'' None =
        (\<lparr>content = [\<lparr>item_type = ''text'', item_text = ''Error: Unknown tool: delete_account''\<rparr>],
          isError = Some False\<rparr>, initial_state)
   \<and> callTool_bot example_bot [] ''delete_account'' None =
        (\<lparr>content = [\<lparr>item_type = ''text'', item_text = ''Error: Unknown tool: delete_account''\<rparr>],
          isError = None\<rparr>, [])"
  using unknown_tool [of "''delete_account''" example_backend no_files initial_state None example_bot "[]"]
  by (simp add: case_labels_def case_labels_v2_def case_labels_bot_def)

section \<open>Failure envelopes\<close>

text \<open>
  Claim C4.  On a failure path of \<open>callTool\<close>, that is when the name is none of the
  case labels or when the selected operation raised an exception that the handler
  caught, the envelope has exactly one content element, of type \<open>text\<close>, whose text is
  \<open>Error: \<close> followed by the extracted message; its \<open>isError\<close> flag is \<open>false\<close> in
  the two chat readers and absent in the bot server, never \<open>true\<close>.
\<close>

theorem failure_envelope:
  "(dispatch be files st name args = (Inl e, st') \<longrightarrow>
      fst (callTool be files st name args) =
        \<lparr>content = [\<lparr>item_type = ''text'', item_text = ''Error: '' @ error_message e\<rparr>],
         isError = Some False\<rparr>)
   \<and> (name \<notin> set case_labels \<longrightarrow>
      fst (callTool be files st name args) =
        \<lparr>content = [\<lparr>item_type = ''text'', item_text = ''Error: '' @ (''Unknown tool: '' @ name)\<rparr>],
         isError = Some False\<rparr>)
   \<and> (dispatch_v2 be files st name args = (Inl e, st') \<longrightarrow>
      fst (callTool_v2 be files st name args) =
        \<lparr>content = [\<lparr>item_type = ''text'', item_text = ''Error: '' @ error_message e\<rparr>],
         isError = Some False\<rparr>)
   \<and> (name \<notin> set case_labels_v2 \<longrightarrow>
      fst (callTool_v2 be files st name args) =
        \<lparr>content = [\<lparr>item_type = ''text'', item_text = ''Error: '' @ (''Unknown tool: '' @ name)\<rparr>],
         isError = Some False\<rparr>)
   \<and> (dispatch_bot api bst name args = (Inl e, bst') \<longrightarrow>
      fst (callTool_bot api bst name args) =
        \<lparr>content = [\<lparr>item_type = ''text'', item_text = ''Error: '' @ error_message e\<rparr>],
         isError = None\<rparr>)
   \<and> (name \<notin> set case_labels_bot \<longrightarrow>
      fst (callTool_bot api bst name args) =
        \<lparr>content = [\<lparr>item_type = ''text'', item_text = ''Error: '' @ (''Unknown tool: '' @ name)\<rparr>],
         isError = None\<rparr>)"
  by (simp add: case_labels_def case_labels_v2_def case_labels_bot_def callTool_def callTool_v2_def
      callTool_bot_def dispatch_def dispatch_v2_def dispatch_bot_def errorContent_def
      errorContent_bot_def text_content_def)

theorem failure_envelope_witness:
  "dispatch example_backend no_files initial_state ''get_me'' None = (Inl not_connected, initial_state)
   \<and> fst (callTool example_backend no_files initial_state ''get_me'' None) =
        \<lparr>content = [\<lparr>item_type = ''text'',
                     item_text = ''Error: Not connected to Telegram. Use connect_telegram first.''\<rparr>],
         isError = Some False\<rparr>
   \<and> dispatch_v2 example_backend no_files initial_state ''get_me'' None = (Inl not_connected, initial_state)
   \<and> fst (callTool_v2 example_backend no_files initial_state ''get_me'' None) =
        \<lparr>content = [\<lparr>item_type = ''text'',
                     item_text = ''Error: Not connected to Telegram. Use connect_telegram first.''\<rparr>],
         isError = Some False\<rparr>
   \<and> dispatch_bot example_bot [] ''send_telegram_photo'' (Some Map.empty) =
        (Inl (JsError ''ETELEGRAM: 400 Bad Request''), [SendPhoto VUndefined VUndefined []])
   \<and> fst (callTool_bot example_bot [] ''send_telegram_photo'' (Some Map.empty)) =
        \<lparr>content = [\<lparr>item_type = ''text'', item_text = ''Error: ETELEGRAM: 400 Bad Request''\<rparr>],
         isError = None\<rparr>
   \<and> ''shutdown'' \<notin> set case_labels \<and> ''shutdown'' \<notin> set case_labels_v2
   \<and> ''shutdown'' \<notin> set case_labels_bot
   \<and> fst (callTool example_backend no_files initial_state ''shutdown'' None) =
        \<lparr>content = [\<lparr>item_type = ''text'', item_text = ''Error: Unknown tool: shutdown''\<rparr>],
         isError = Some False\<rparr>
   \<and> fst (callTool_v2 example_backend no_files initial_state ''shutdown'' None) =
        \<lparr>content = [\<lparr>item_type = ''text'', item_text = ''Error: Unknown tool: shutdown''\<rparr>],
         isError = Some False\<rparr>
   \<and> fst (callTool_bot example_bot [] ''shutdown'' None) =
        \<lparr>content = [\<lparr>item_type = ''text'', item_text = ''Error: Unknown tool: shutdown''\<rparr>],
         isError = None\<rparr>"
proof -
  have d1: "dispatch example_backend no_files initial_state ''get_me'' None =
      (Inl not_connected, initial_state)"
    by (simp add: dispatch_def getMe_def initial_state_def)
  have d2: "dispatch_v2 example_backend no_files initial_state ''get_me'' None =
      (Inl not_connected, initial_state)"
    by (simp add: dispatch_v2_def getMe_def initial_state_def)
  have d3: "dispatch_bot example_bot [] ''send_telegram_photo'' (Some Map.empty) =
      (Inl (JsError ''ETELEGRAM: 400 Bad Request''), [SendPhoto VUndefined VUndefined []])"
    by (simp add: dispatch_bot_def sendTelegramPhoto_def example_bot_def destructure_def)
  have n: "''shutdown'' \<notin> set case_labels" "''shutdown'' \<notin> set case_labels_v2"
    "''shutdown'' \<notin> set case_labels_bot"
    by (simp_all add: case_labels_def case_labels_v2_def case_labels_bot_def)
  show ?thesis
    using d1 d2 d3 n
      failure_envelope [of example_backend no_files initial_state "''get_me''" None not_connected
        initial_state example_bot "[]" "[]"]
      failure_envelope [of example_backend no_files initial_state "''send_telegram_photo''"
        "Some Map.empty" "JsError ''ETELEGRAM: 400 Bad Request''" initial_state example_bot "[]"
        "[SendPhoto VUndefined VUndefined []]"]
      failure_envelope [of example_backend no_files initial_state "''shutdown''" None not_connected
        initial_state example_bot "[]" "[]"]
    by (simp add: not_connected_def error_message_def)
qed

section \<open>The tool list\<close>

text \<open>
  Claim C9.  The answer to a list request is the same sequence of tool definitions
  whatever requests the process has served before, against whatever library and file
  system, and serving the list request leaves the state as it was.
\<close>

theorem listTools_stable:
  "fst (handle_request be files (run be initial_state history) ListToolsRequest)
     = fst (handle_request be' files' (run be' initial_state history') ListToolsRequest)
   \<and> handle_request be files st ListToolsRequest = (ToolList listTools, st)"
  by (simp add: handle_request_def)

theorem listTools_stable_witness:
  "fst (handle_request example_backend no_files
          (run example_backend initial_state
             [(no_files, CallToolRequest ''connect_telegram'' (Some args_without_phone)),
              (no_files, CallToolRequest ''get_dialogs'' (Some Map.empty))])
          ListToolsRequest)
     = fst (handle_request example_backend no_files (run example_backend initial_state [])
              ListToolsRequest)"
  using listTools_stable [of example_backend no_files
      "[(no_files, CallToolRequest ''connect_telegram'' (Some args_without_phone)),
        (no_files, CallToolRequest ''get_dialogs'' (Some Map.empty))]"
      example_backend no_files "[]"]
  by blast

section \<open>\<open>connect_telegram\<close> and the phone number\<close>

text \<open>
  Claim C10.  Two argument objects that agree on every property other than
  \<open>phoneNumber\<close> (one of them may lack it) give the same envelope and the same
  resulting state, in both chat readers: \<open>connectTelegram\<close> reads \<open>apiId\<close> and
  \<open>apiHash\<close> only.
\<close>

theorem connect_ignores_phoneNumber:
  assumes "\<forall>k. k \<noteq> ''phoneNumber'' \<longrightarrow> a1 k = a2 k"
  shows "connectTelegram be files st (Some a1) = connectTelegram be files st (Some a2)
    \<and> connectTelegram_v2 be files st (Some a1) = connectTelegram_v2 be files st (Some a2)
    \<and> callTool be files st ''connect_telegram'' (Some a1)
        = callTool be files st ''connect_telegram'' (Some a2)
    \<and> callTool_v2 be files st ''connect_telegram'' (Some a1)
        = callTool_v2 be files st ''connect_telegram'' (Some a2)"
proof -
  have id: "a1 ''apiId'' = a2 ''apiId''" and hash: "a1 ''apiHash'' = a2 ''apiHash''"
    using assms by simp_all
  have one: "connectTelegram be files st (Some a1) = connectTelegram be files st (Some a2)"
    by (simp add: connectTelegram_def destructure_def id hash)
  have two: "connectTelegram_v2 be files st (Some a1) = connectTelegram_v2 be files st (Some a2)"
    by (simp add: connectTelegram_v2_def destructure_def id hash)
  show ?thesis
    by (simp add: one two callTool_def callTool_v2_def dispatch_def dispatch_v2_def)
qed

theorem connect_ignores_phoneNumber_witness:
  "args_with_phone ''phoneNumber'' \<noteq> args_without_phone ''phoneNumber''
   \<and> callTool example_backend no_files initial_state ''connect_telegram'' (Some args_with_phone)
     = callTool example_backend no_files initial_state ''connect_telegram'' (Some args_without_phone)
   \<and> callTool_v2 example_backend no_files initial_state ''connect_telegram'' (Some args_with_phone)
     = callTool_v2 example_backend no_files initial_state ''connect_telegram'' (Some args_without_phone)"
proof -
  have h: "\<forall>k. k \<noteq> ''phoneNumber'' \<longrightarrow> args_with_phone k = args_without_phone k"
    by (simp add: args_with_phone_def args_without_phone_def)
  have d: "args_with_phone ''phoneNumber'' \<noteq> args_without_phone ''phoneNumber''"
    by (simp add: args_with_phone_def args_without_phone_def)
  show ?thesis
    using d connect_ignores_phoneNumber [OF h, of example_backend no_files initial_state]
    by blast
qed

section \<open>\<open>auto_connect\<close> without its artifacts\<close>

text \<open>
  Claim C6.  With no credentials file, \<open>auto_connect\<close> fails with the message
  \<open>No saved credentials found\<close>; with a credentials file that parses to a record and
  a session file that is absent or holds only white space, it fails with the other
  message \<open>No saved session found\<close>.  In both cases the state is the one before the
  call: no session or client object is built, no library call is made.
\<close>

theorem autoConnect_missing_artifacts:
  "(files credentialsFile = Absent \<longrightarrow>
      callTool be files st ''auto_connect'' args =
        (\<lparr>content = [\<lparr>item_type = ''text'',
            item_text = ''Error: No saved credentials found. Please run authentication script first.''\<rparr>],
          isError = Some False\<rparr>, st))
   \<and> (files credentialsFile = Content data \<and> JSON_parse be data = Some (VObj credentials)
        \<and> (files sessionFile = Absent \<or> (\<exists>t. files sessionFile = Content t \<and> trim t = [])) \<longrightarrow>
      callTool be files st ''auto_connect'' args =
        (\<lparr>content = [\<lparr>item_type = ''text'',
            item_text = ''Error: No saved session found. Please run authentication script first.''\<rparr>],
          isError = Some False\<rparr>, st))"
  by (auto simp add: callTool_def dispatch_def autoConnect_def loadCredentials_def loadSession_def
      existsSync_def readFileSync_def errorContent_def text_content_def error_message_def)

theorem autoConnect_missing_artifacts_witness:
  "no_files credentialsFile = Absent
   \<and> callTool example_backend no_files initial_state ''auto_connect'' None =
        (\<lparr>content = [\<lparr>item_type = ''text'',
            item_text = ''Error: No saved credentials found. Please run authentication script first.''\<rparr>],
          isError = Some False\<rparr>, initial_state)
   \<and> credentials_only credentialsFile = Content (JSON_stringify example_credentials)
   \<and> JSON_parse example_backend (JSON_stringify example_credentials) = Some example_credentials
   \<and> credentials_only sessionFile = Absent
   \<and> callTool example_backend credentials_only initial_state ''auto_connect'' None =
        (\<lparr>content = [\<lparr>item_type = ''text'',
            item_text = ''Error: No saved session found. Please run authentication script first.''\<rparr>],
          isError = Some False\<rparr>, initial_state)"
proof -
  have a: "no_files credentialsFile = Absent"
    by (simp add: no_files_def)
  have b: "credentials_only credentialsFile = Content (JSON_stringify example_credentials)"
    by (simp add: credentials_only_def)
  have c: "JSON_parse example_backend (JSON_stringify example_credentials) =
      Some (VObj [(''apiId'', VStr ''123''), (''apiHash'', VStr ''abc''),
                  (''phoneNumber'', VStr ''+10000000000'')])"
    using json_parse_credentials [of "''123''" "''abc''" "''+10000000000''"]
    by (simp add: example_backend_def example_credentials_def credentials_record_def)
  have d: "credentials_only sessionFile = Absent"
    by (simp add: credentials_only_def no_files_def credentialsFile_def sessionFile_def)
  show ?thesis
    using a b c d
      autoConnect_missing_artifacts [of no_files example_backend initial_state None]
      autoConnect_missing_artifacts [of credentials_only example_backend initial_state None
        "JSON_stringify example_credentials"
        "[(''apiId'', VStr ''123''), (''apiHash'', VStr ''abc''),
          (''phoneNumber'', VStr ''+10000000000'')]"]
    by (simp add: example_credentials_def credentials_record_def)
qed

section \<open>The guard of the data-fetching tools\<close>

text \<open>
  While no client object has been assigned, each of the four data-fetching tools
  returns the error envelope \<open>Not connected\<close> and the state, with its record of
  library calls, is unchanged.
\<close>

lemma not_connected_without_client:
  assumes "client st = None"
    and "name \<in> {''get_dialogs'', ''get_messages'', ''search_global'', ''get_me''}"
  shows "callTool be files st name args =
           (\<lparr>content = [\<lparr>item_type = ''text'',
               item_text = ''Error: Not connected to Telegram. Use connect_telegram first.''\<rparr>],
             isError = Some False\<rparr>, st)"
    and "callTool_v2 be files st name args =
           (\<lparr>content = [\<lparr>item_type = ''text'',
               item_text = ''Error: Not connected to Telegram. Use connect_telegram first.''\<rparr>],
             isError = Some False\<rparr>, st)"
  using assms
  by (auto simp add: callTool_def callTool_v2_def dispatch_def dispatch_v2_def getDialogs_def
      getMessages_def searchGlobal_def getMe_def not_connected_def error_message_def
      errorContent_def text_content_def)

text \<open>
  Whenever \<open>connectTelegram\<close> answers \<open>Connection failed\<close>, it leaves a client
  assigned; and with a client assigned, a data-fetching tool calls the library.
\<close>

lemma connection_failed_leaves_client:
  assumes "fst (connectTelegram be files st args) =
      Inr \<lparr>content = [text_content
              ''Connection failed. Please ensure you have run the authentication script first to save your session.''],
           isError = None\<rparr>"
  shows "client (snd (connectTelegram be files st args)) \<noteq> None"
  using assms
  by (auto simp add: connectTelegram_def Let_def text_content_def log_call_def
      split: option.splits)

lemma guard_passes_with_client:
  assumes "client st = Some c"
  shows "calls (snd (callTool be files st ''get_me'' args)) = calls st @ [GetMe c]"
  using assms
  by (auto simp add: callTool_def dispatch_def getMe_def Let_def log_call_def split: sum.splits)

text \<open>
  Claim C1.  The guard tests whether a client object has been assigned, and
  \<open>connectTelegram\<close> assigns it before it calls \<open>connect\<close>.  After a
  \<open>connect_telegram\<close> call whose connection attempt failed, the client is assigned:
  \<open>get_dialogs\<close> and \<open>get_me\<close> pass the guard, call the library, and return what the
  library's failure says, not the \<open>Not connected\<close> envelope.
\<close>

theorem data_tool_after_failed_connect:
  "callTool offline_backend no_files initial_state ''connect_telegram'' (Some args_without_phone) =
     (\<lparr>content = [\<lparr>item_type = ''text'',
         item_text = ''Connection failed. Please ensure you have run the authentication script first to save your session.''\<rparr>],
       isError = None\<rparr>, client_assigned)
   \<and> callTool offline_backend no_files client_assigned ''get_dialogs'' (Some Map.empty) =
     (\<lparr>content = [\<lparr>item_type = ''text'',
         item_text = ''Error: Cannot send requests while disconnected''\<rparr>],
       isError = Some False\<rparr>,
      client_assigned\<lparr>calls := calls client_assigned @ [GetDialogs example_client (VNum 100)]\<rparr>)
   \<and> callTool offline_backend no_files client_assigned ''get_me'' None =
     (\<lparr>content = [\<lparr>item_type = ''text'', item_text = ''Error: AUTH_KEY_UNREGISTERED''\<rparr>],
       isError = Some False\<rparr>,
      client_assigned\<lparr>calls := calls client_assigned @ [GetMe example_client]\<rparr>)"
  by (simp add: callTool_def dispatch_def connectTelegram_def getDialogs_def getMe_def
      offline_backend_def example_backend_def args_without_phone_def destructure_def
      destructure_default_def loadSession_def existsSync_def no_files_def initial_state_def
      client_assigned_def example_client_def log_call_def text_content_def errorContent_def
      error_message_def Let_def)

section \<open>Failures of the library\<close>

text \<open>
  \<open>getMessages\<close> and \<open>searchGlobal\<close> catch a failure of the library and raise an
  error whose message starts with the name of the operation; \<open>getDialogs\<close> and
  \<open>getMe\<close> have no handler, and the failure leaves them as it was raised.
\<close>

lemma getMessages_failure_prefixed:
  assumes "getMessages be st (Some a) = (Inl e, st')" and "client st = Some c"
  shows "\<exists>m. e = JsError (''Could not get messages: '' @ m)"
  using assms
  by (auto simp add: getMessages_def Let_def split: sum.splits)

lemma searchGlobal_failure_prefixed:
  assumes "searchGlobal be st (Some a) = (Inl e, st')" and "client st = Some c"
  shows "\<exists>m. e = JsError (''Search failed: '' @ m)"
  using assms
  by (auto simp add: searchGlobal_def Let_def split: sum.splits)

lemma getDialogs_failure_unmodified:
  assumes "client st = Some c"
    and "client_getDialogs be (calls st) c (destructure_default a ''limit'' (VNum 100)) = Inl e"
  shows "fst (getDialogs be st (Some a)) = Inl e"
  using assms by (simp add: getDialogs_def Let_def)

lemma getMe_failure_unmodified:
  assumes "client st = Some c" and "client_getMe be (calls st) c = Inl e"
  shows "fst (getMe be st) = Inl e"
  using assms by (simp add: getMe_def Let_def)

text \<open>
  Claim C3.  A failure of the library inside \<open>get_dialogs\<close> or \<open>get_me\<close> reaches the
  dispatcher with the library's own message and no prefix: with a client assigned and
  a library whose \<open>getDialogs\<close> raises \<open>FLOOD_WAIT_30\<close> and whose \<open>getMe\<close> raises
  \<open>AUTH_KEY_UNREGISTERED\<close>, the dispatcher catches exactly these errors.
\<close>

theorem backend_failure_reaches_dispatcher:
  "dispatch flood_backend no_files client_assigned ''get_dialogs'' (Some Map.empty) =
     (Inl (JsError ''FLOOD_WAIT_30''),
      client_assigned\<lparr>calls := calls client_assigned @ [GetDialogs example_client (VNum 100)]\<rparr>)
   \<and> fst (callTool flood_backend no_files client_assigned ''get_dialogs'' (Some Map.empty)) =
     \<lparr>content = [\<lparr>item_type = ''text'', item_text = ''Error: FLOOD_WAIT_30''\<rparr>],
      isError = Some False\<rparr>
   \<and> dispatch flood_backend no_files client_assigned ''get_me'' None =
     (Inl (JsError ''AUTH_KEY_UNREGISTERED''),
      client_assigned\<lparr>calls := calls client_assigned @ [GetMe example_client]\<rparr>)
   \<and> fst (callTool flood_backend no_files client_assigned ''get_me'' None) =
     \<lparr>content = [\<lparr>item_type = ''text'', item_text = ''Error: AUTH_KEY_UNREGISTERED''\<rparr>],
      isError = Some False\<rparr>"
  by (simp add: callTool_def dispatch_def getDialogs_def getMe_def
      flood_backend_def example_backend_def destructure_default_def
      client_assigned_def example_client_def log_call_def text_content_def errorContent_def
      error_message_def)

section \<open>The sender of a message\<close>

text \<open>
  \<open>toString\<close> writes a natural number in decimal: its characters are digits and
  their decimal value is the number.
\<close>

lemma digit_char_value: "k < 10 \<Longrightarrow> (of_char (digit_char k) :: nat) = 48 + k"
proof -
  assume "k < 10"
  then have "k = 0 \<or> k = 1 \<or> k = 2 \<or> k = 3 \<or> k = 4 \<or> k = 5 \<or> k = 6 \<or> k = 7 \<or> k = 8 \<or> k = 9"
    by arith
  then show ?thesis
    by (elim disjE) (simp_all add: digit_char_def)
qed

lemma digits_value_append: "digits_value (ds @ [c]) = 10 * digits_value ds + (of_char c - 48)"
  by (simp add: digits_value_def)

lemma nat_toString_decimal:
  "digits_value (nat_toString n) = n \<and> (\<forall>c \<in> set (nat_toString n). is_digit c)"
proof (induction n rule: nat_toString.induct)
  case (1 n)
  show ?case
  proof (cases "n < 10")
    case True
    then show ?thesis
      by (subst (1 2) nat_toString.simps)
         (simp add: digits_value_def digit_char_value is_digit_def)
  next
    case False
    have m: "n mod 10 < 10" by simp
    from False 1 have ih: "digits_value (nat_toString (n div 10)) = n div 10"
      "\<forall>c \<in> set (nat_toString (n div 10)). is_digit c"
      by simp_all
    show ?thesis
      using False ih m
      by (subst (1 2) nat_toString.simps)
         (simp add: digits_value_append digit_char_value is_digit_def)
  qed
qed

text \<open>A property whose value is \<open>undefined\<close> does not appear in the JSON text.\<close>

lemma serialize_omits_undefined:
  "serialize ind (VObj (ps @ (k, VUndefined) # qs)) = serialize ind (VObj (ps @ qs))"
  by simp

text \<open>
  Claim C5, as stated, fails: for a message whose \<open>from\<close> reference is a channel, the
  \<open>fromId\<close> property of the output object is \<open>undefined\<close>, not \<open>null\<close>, and the JSON
  text has no \<open>fromId\<close> key (while \<open>sender\<close>, which the code sets to \<open>null\<close>, is
  written).
\<close>

theorem fromId_not_null:
  \<open>msg_fromId channel_post = Some (PeerChannel 777)
   \<and> map_of (message_info channel_post) ''fromId'' = Some VUndefined
   \<and> map_of (message_info channel_post) ''fromId'' \<noteq> Some VNull
   \<and> map_of (message_info channel_post) ''sender'' = Some VNull
   \<and> JSON_stringify (getMessages_result [channel_post]) =
       join [CHR 0x0A]
         [''['',
          ''  {'',
          ''    "id": 8,'',
          ''    "message": "news",'',
          ''    "date": 1700000001,'',
          ''    "sender": null,'',
          ''    "views": 3'',
          ''  }'',
          '']'']\<close>
  by (simp add: channel_post_def message_info_def fromId_value_def sender_value_def
      replyTo_value_def getMessages_result_def JSON_stringify_def json_quote_def json_escape_def
      toString_def nat_toString.simps digit_char_def)

text \<open>
  Claim C5, amended.  The \<open>fromId\<close> of an output object is the decimal string of the
  user id when the \<open>from\<close> reference is a \<open>PeerUser\<close> (\<open>555\<close> gives \<open>"555"\<close>), and
  \<open>undefined\<close> otherwise, so that the key is absent from the JSON text; the text of the
  \<open>get_messages\<close> envelope is the JSON of these objects, one for each message.
\<close>

theorem fromId_extraction:
  "(msg_fromId msg = Some (PeerUser userId) \<longrightarrow>
      map_of (message_info msg) ''fromId'' = Some (VStr (toString userId)))
   \<and> ((\<forall>userId. msg_fromId msg \<noteq> Some (PeerUser userId)) \<longrightarrow>
      map_of (message_info msg) ''fromId'' = Some VUndefined)
   \<and> toString 555 = ''555''
   \<and> serialize ind (VObj (ps @ (''fromId'', VUndefined) # qs)) = serialize ind (VObj (ps @ qs))
   \<and> (client st = Some c
        \<and> client_getEntity be (calls st) c (destructure a ''entityId'') = Inr entity
        \<and> client_getMessages be (calls (log_call st (GetEntity c (destructure a ''entityId''))))
             c entity (destructure_default a ''limit'' (VNum 50)) (destructure a ''offsetId'')
            = Inr messages \<longrightarrow>
      fst (callTool be files st ''get_messages'' (Some a)) =
        \<lparr>content = [\<lparr>item_type = ''text'',
            item_text = JSON_stringify (VArr (map (\<lambda>msg. VObj (message_info msg)) messages))\<rparr>],
         isError = None\<rparr>)"
proof -
  have user: "msg_fromId msg = Some (PeerUser userId) \<longrightarrow>
      map_of (message_info msg) ''fromId'' = Some (VStr (toString userId))"
    by (simp add: message_info_def fromId_value_def)
  have other: "(\<forall>userId. msg_fromId msg \<noteq> Some (PeerUser userId)) \<longrightarrow>
      map_of (message_info msg) ''fromId'' = Some VUndefined"
    by (auto simp add: message_info_def fromId_value_def split: option.splits peer.splits)
  have dec: "toString 555 = ''555''"
    by (simp add: toString_def nat_toString.simps digit_char_def)
  have omit: "serialize ind (VObj (ps @ (''fromId'', VUndefined) # qs)) = serialize ind (VObj (ps @ qs))"
    by simp
  have tool: "client st = Some c
        \<and> client_getEntity be (calls st) c (destructure a ''entityId'') = Inr entity
        \<and> client_getMessages be (calls (log_call st (GetEntity c (destructure a ''entityId''))))
             c entity (destructure_default a ''limit'' (VNum 50)) (destructure a ''offsetId'')
            = Inr messages \<longrightarrow>
      fst (callTool be files st ''get_messages'' (Some a)) =
        \<lparr>content = [\<lparr>item_type = ''text'',
            item_text = JSON_stringify (VArr (map (\<lambda>msg. VObj (message_info msg)) messages))\<rparr>],
         isError = None\<rparr>"
    by (simp add: callTool_def dispatch_def getMessages_def Let_def getMessages_result_def
        text_content_def)
  show ?thesis
    using user other dec omit tool by blast
qed

theorem fromId_extraction_witness:
  \<open>msg_fromId user_message = Some (PeerUser 555)
   \<and> map_of (message_info user_message) ''fromId'' = Some (VStr ''555'')
   \<and> map_of (message_info channel_post) ''fromId'' = Some VUndefined
   \<and> fst (callTool messages_backend no_files client_assigned ''get_messages''
            (Some [''entityId'' \<mapsto> VStr ''me''])) =
        \<lparr>content = [\<lparr>item_type = ''text'',
            item_text = join [CHR 0x0A]
              [''['',
               ''  {'',
               ''    "id": 7,'',
               ''    "message": "hi",'',
               ''    "date": 1700000000,'',
               ''    "fromId": "555",'',
               ''    "sender": null'',
               ''  },'',
               ''  {'',
               ''    "id": 8,'',
               ''    "message": "news",'',
               ''    "date": 1700000001,'',
               ''    "sender": null,'',
               ''    "views": 3'',
               ''  }'',
               '']'']\<rparr>],
         isError = None\<rparr>\<close>
proof -
  have u: "msg_fromId user_message = Some (PeerUser 555)"
    by (simp add: user_message_def)
  have o: "\<forall>userId. msg_fromId channel_post \<noteq> Some (PeerUser userId)"
    by (simp add: channel_post_def)
  have c: "client client_assigned = Some example_client"
    by (simp add: client_assigned_def)
  have e: "client_getEntity messages_backend (calls client_assigned) example_client
             (destructure [''entityId'' \<mapsto> VStr ''me''] ''entityId'') = Inr OtherEntity"
    by (simp add: messages_backend_def example_backend_def)
  have m: "client_getMessages messages_backend
             (calls (log_call client_assigned
                (GetEntity example_client (destructure [''entityId'' \<mapsto> VStr ''me''] ''entityId''))))
             example_client OtherEntity
             (destructure_default [''entityId'' \<mapsto> VStr ''me''] ''limit'' (VNum 50))
             (destructure [''entityId'' \<mapsto> VStr ''me''] ''offsetId'')
           = Inr [user_message, channel_post]"
    by (simp add: messages_backend_def example_backend_def)
  have t: "JSON_stringify (VArr (map (\<lambda>msg. VObj (message_info msg)) [user_message, channel_post]))
      = join [CHR 0x0A]
              [''['',
               ''  {'',
               ''    \"id\": 7,'',
               ''    \"message\": \"hi\",'',
               ''    \"date\": 1700000000,'',
               ''    \"fromId\": \"555\",'',
               ''    \"sender\": null'',
               ''  },'',
               ''  {'',
               ''    \"id\": 8,'',
               ''    \"message\": \"news\",'',
               ''    \"date\": 1700000001,'',
               ''    \"sender\": null,'',
               ''    \"views\": 3'',
               ''  }'',
               '']'']"
    by (simp add: user_message_def channel_post_def message_info_def fromId_value_def
        sender_value_def replyTo_value_def JSON_stringify_def json_quote_def json_escape_def
        toString_def nat_toString.simps digit_char_def)
  show ?thesis
    using u o c e m t
      fromId_extraction [of user_message 555]
      fromId_extraction [of channel_post _ _ _ _ client_assigned example_client messages_backend
        "[''entityId'' \<mapsto> VStr ''me'']" OtherEntity "[user_message, channel_post]" no_files]
    by (simp add: toString_def nat_toString.simps digit_char_def)
qed

section \<open>The shape of a dialog\<close>

text \<open>
  Claim C7.  The object built for a dialog has the detail property of its entity's
  class and no other: \<open>user\<close> for a user, \<open>channel\<close> for a channel, \<open>chat\<close> for a
  basic group.  The text of the \<open>get_dialogs\<close> envelope is the JSON array of these
  objects, one for each dialog that the library returned.
\<close>

theorem getDialogs_detail_matches_entity:
  "(dialog_entity d = Some (User firstName lastName username phone) \<longrightarrow>
      map_of (chatInfo d) ''user'' =
        Some (VObj [(''firstName'', firstName), (''lastName'', lastName),
                    (''username'', username), (''phone'', phone)])
      \<and> map_of (chatInfo d) ''chat'' = None \<and> map_of (chatInfo d) ''channel'' = None)
   \<and> (dialog_entity d = Some (Channel title username participantsCount) \<longrightarrow>
      map_of (chatInfo d) ''channel'' =
        Some (VObj [(''title'', title), (''username'', username),
                    (''participantsCount'', participantsCount)])
      \<and> map_of (chatInfo d) ''user'' = None \<and> map_of (chatInfo d) ''chat'' = None)
   \<and> (dialog_entity d = Some (Chat title participantsCount) \<longrightarrow>
      map_of (chatInfo d) ''chat'' =
        Some (VObj [(''title'', title), (''participantsCount'', participantsCount)])
      \<and> map_of (chatInfo d) ''user'' = None \<and> map_of (chatInfo d) ''channel'' = None)
   \<and> (client st = Some c
        \<and> client_getDialogs be (calls st) c (destructure_default a ''limit'' (VNum 100)) = Inr dialogs \<longrightarrow>
      fst (callTool be files st ''get_dialogs'' (Some a)) =
        \<lparr>content = [\<lparr>item_type = ''text'',
            item_text = JSON_stringify (VArr (map (\<lambda>d. VObj (chatInfo d)) dialogs))\<rparr>],
         isError = Some False\<rparr>)
   \<and> length (map (\<lambda>d. VObj (chatInfo d)) dialogs) = length dialogs"
proof -
  have user: "dialog_entity d = Some (User firstName lastName username phone) \<longrightarrow>
      map_of (chatInfo d) ''user'' =
        Some (VObj [(''firstName'', firstName), (''lastName'', lastName),
                    (''username'', username), (''phone'', phone)])
      \<and> map_of (chatInfo d) ''chat'' = None \<and> map_of (chatInfo d) ''channel'' = None"
    by (simp add: chatInfo_def entity_detail_def last_message_detail_def
        split: option.splits last_message.splits)
  have channel: "dialog_entity d = Some (Channel title username participantsCount) \<longrightarrow>
      map_of (chatInfo d) ''channel'' =
        Some (VObj [(''title'', title), (''username'', username),
                    (''participantsCount'', participantsCount)])
      \<and> map_of (chatInfo d) ''user'' = None \<and> map_of (chatInfo d) ''chat'' = None"
    by (simp add: chatInfo_def entity_detail_def last_message_detail_def
        split: option.splits last_message.splits)
  have chat: "dialog_entity d = Some (Chat title participantsCount) \<longrightarrow>
      map_of (chatInfo d) ''chat'' =
        Some (VObj [(''title'', title), (''participantsCount'', participantsCount)])
      \<and> map_of (chatInfo d) ''user'' = None \<and> map_of (chatInfo d) ''channel'' = None"
    by (simp add: chatInfo_def entity_detail_def last_message_detail_def
        split: option.splits last_message.splits)
  have tool: "client st = Some c
        \<and> client_getDialogs be (calls st) c (destructure_default a ''limit'' (VNum 100)) = Inr dialogs \<longrightarrow>
      fst (callTool be files st ''get_dialogs'' (Some a)) =
        \<lparr>content = [\<lparr>item_type = ''text'',
            item_text = JSON_stringify (VArr (map (\<lambda>d. VObj (chatInfo d)) dialogs))\<rparr>],
         isError = Some False\<rparr>"
    by (simp add: callTool_def dispatch_def getDialogs_def Let_def getDialogs_result_def
        text_content_def)
  show ?thesis
    using user channel chat tool by simp
qed

theorem getDialogs_detail_matches_entity_witness:
  \<open>dialog_entity alice_dialog =
      Some (User (VStr ''Alice'') VUndefined (VStr ''alice'') (VStr ''15550100''))
   \<and> map_of (chatInfo alice_dialog) ''user'' =
        Some (VObj [(''firstName'', VStr ''Alice''), (''lastName'', VUndefined),
                    (''username'', VStr ''alice''), (''phone'', VStr ''15550100'')])
   \<and> map_of (chatInfo alice_dialog) ''chat'' = None
   \<and> map_of (chatInfo alice_dialog) ''channel'' = None
   \<and> dialog_entity news_dialog = Some (Channel (VStr ''News'') (VStr ''news'') (VNum 40))
   \<and> map_of (chatInfo news_dialog) ''channel'' =
        Some (VObj [(''title'', VStr ''News''), (''username'', VStr ''news''),
                    (''participantsCount'', VNum 40)])
   \<and> map_of (chatInfo news_dialog) ''user'' = None
   \<and> map_of (chatInfo news_dialog) ''chat'' = None
   \<and> map_of (chatInfo (alice_dialog\<lparr>dialog_entity := Some (Chat (VStr ''Team'') (VNum 3))\<rparr>)) ''chat'' =
        Some (VObj [(''title'', VStr ''Team''), (''participantsCount'', VNum 3)])
   \<and> length (map (\<lambda>d. VObj (chatInfo d)) [alice_dialog, news_dialog]) = 2
   \<and> fst (callTool dialogs_backend no_files client_assigned ''get_dialogs'' (Some Map.empty)) =
        \<lparr>content = [\<lparr>item_type = ''text'',
            item_text = join [CHR 0x0A]
              [''['',
               ''  {'',
               ''    "id": "1001",'',
               ''    "title": "Alice",'',
               ''    "isUser": true,'',
               ''    "isGroup": false,'',
               ''    "isChannel": false,'',
               ''    "unreadCount": 2,'',
               ''    "user": {'',
               ''      "firstName": "Alice",'',
               ''      "username": "alice",'',
               ''      "phone": "15550100"'',
               ''    }'',
               ''  },'',
               ''  {'',
               ''    "id": "-1002",'',
               ''    "title": "News",'',
               ''    "isUser": false,'',
               ''    "isGroup": false,'',
               ''    "isChannel": true,'',
               ''    "unreadCount": 0,'',
               ''    "channel": {'',
               ''      "title": "News",'',
               ''      "username": "news",'',
               ''      "participantsCount": 40'',
               ''    },'',
               ''    "lastMessage": {'',
               ''      "id": 9,'',
               ''      "message": "hello",'',
               ''      "date": 1700000000'',
               ''    }'',
               ''  }'',
               '']'']\<rparr>],
         isError = Some False\<rparr>\<close>
proof -
  have a: "dialog_entity alice_dialog =
      Some (User (VStr ''Alice'') VUndefined (VStr ''alice'') (VStr ''15550100''))"
    by (simp add: alice_dialog_def)
  have n: "dialog_entity news_dialog = Some (Channel (VStr ''News'') (VStr ''news'') (VNum 40))"
    by (simp add: news_dialog_def)
  have g: "dialog_entity (alice_dialog\<lparr>dialog_entity := Some (Chat (VStr ''Team'') (VNum 3))\<rparr>)
      = Some (Chat (VStr ''Team'') (VNum 3))"
    by simp
  have c: "client client_assigned = Some example_client"
    by (simp add: client_assigned_def)
  have r: "client_getDialogs dialogs_backend (calls client_assigned) example_client
             (destructure_default Map.empty ''limit'' (VNum 100)) = Inr [alice_dialog, news_dialog]"
    by (simp add: dialogs_backend_def example_backend_def)
  have t: \<open>JSON_stringify (VArr (map (\<lambda>d. VObj (chatInfo d)) [alice_dialog, news_dialog])) =
      join [CHR 0x0A]
              [''['',
               ''  {'',
               ''    "id": "1001",'',
               ''    "title": "Alice",'',
               ''    "isUser": true,'',
               ''    "isGroup": false,'',
               ''    "isChannel": false,'',
               ''    "unreadCount": 2,'',
               ''    "user": {'',
               ''      "firstName": "Alice",'',
               ''      "username": "alice",'',
               ''      "phone": "15550100"'',
               ''    }'',
               ''  },'',
               ''  {'',
               ''    "id": "-1002",'',
               ''    "title": "News",'',
               ''    "isUser": false,'',
               ''    "isGroup": false,'',
               ''    "isChannel": true,'',
               ''    "unreadCount": 0,'',
               ''    "channel": {'',
               ''      "title": "News",'',
               ''      "username": "news",'',
               ''      "participantsCount": 40'',
               ''    },'',
               ''    "lastMessage": {'',
               ''      "id": 9,'',
               ''      "message": "hello",'',
               ''      "date": 1700000000'',
               ''    }'',
               ''  }'',
               '']'']\<close>
    by (simp add: alice_dialog_def news_dialog_def chatInfo_def entity_detail_def
        last_message_detail_def optional_toString_def JSON_stringify_def json_quote_def
        json_escape_def toString_def nat_toString.simps digit_char_def)
  show ?thesis
    using a n g c r t
      getDialogs_detail_matches_entity [of alice_dialog "VStr ''Alice''" VUndefined "VStr ''alice''"
        "VStr ''15550100''" _ _ client_assigned example_client dialogs_backend Map.empty
        "[alice_dialog, news_dialog]" no_files]
      getDialogs_detail_matches_entity [of news_dialog _ _ "VStr ''news''" _ "VStr ''News''"
        "VNum 40"]
      getDialogs_detail_matches_entity
        [of "alice_dialog\<lparr>dialog_entity := Some (Chat (VStr ''Team'') (VNum 3))\<rparr>" _ _ _ _
          "VStr ''Team''" "VNum 3"]
    by simp
qed

section \<open>Round trip of the Session Store\<close>

text \<open>
  Claim C8.  After the authentication script has saved a session string and the
  credentials, \<open>loadCredentials\<close> returns exactly the credentials record, with any
  \<open>JSON.parse\<close> that inverts \<open>JSON.stringify\<close> on the record and in particular with
  \<open>json_parse\<close>, and \<open>loadSession\<close> returns the session string, trimmed.  A session
  file that is absent or unreadable gives the empty string; a credentials file that is
  absent, unreadable or unparseable gives \<open>null\<close>; neither function raises.
\<close>

theorem session_store_round_trip:
  "(sessionString \<noteq> []
      \<and> parse (JSON_stringify (credentials_record apiId apiHash phoneNumber))
          = Some (credentials_record apiId apiHash phoneNumber) \<longrightarrow>
      loadCredentials parse (authenticate_save files apiId apiHash phoneNumber sessionString)
        = credentials_record apiId apiHash phoneNumber)
   \<and> (sessionString \<noteq> [] \<longrightarrow>
      loadCredentials json_parse (authenticate_save files apiId apiHash phoneNumber sessionString)
        = credentials_record apiId apiHash phoneNumber
      \<and> loadSession (authenticate_save files apiId apiHash phoneNumber sessionString)
        = trim sessionString)
   \<and> (files sessionFile = Absent \<or> files sessionFile = Unreadable \<longrightarrow> loadSession files = [])
   \<and> (files credentialsFile = Absent \<or> files credentialsFile = Unreadable
       \<or> (\<exists>data. files credentialsFile = Content data \<and> parse data = None) \<longrightarrow>
      loadCredentials parse files = VNull)"
proof -
  have written: "sessionString \<noteq> [] \<Longrightarrow>
      authenticate_save files apiId apiHash phoneNumber sessionString credentialsFile
        = Content (JSON_stringify (credentials_record apiId apiHash phoneNumber))
      \<and> authenticate_save files apiId apiHash phoneNumber sessionString sessionFile
        = Content sessionString"
    by (simp add: authenticate_save_def writeFileSync_def credentialsFile_def sessionFile_def)
  have any_parser: "sessionString \<noteq> []
      \<and> parse (JSON_stringify (credentials_record apiId apiHash phoneNumber))
          = Some (credentials_record apiId apiHash phoneNumber) \<longrightarrow>
      loadCredentials parse (authenticate_save files apiId apiHash phoneNumber sessionString)
        = credentials_record apiId apiHash phoneNumber"
    using written by (simp add: loadCredentials_def existsSync_def readFileSync_def)
  have this_parser: "sessionString \<noteq> [] \<longrightarrow>
      loadCredentials json_parse (authenticate_save files apiId apiHash phoneNumber sessionString)
        = credentials_record apiId apiHash phoneNumber
      \<and> loadSession (authenticate_save files apiId apiHash phoneNumber sessionString)
        = trim sessionString"
    using written json_parse_credentials [of apiId apiHash phoneNumber]
    by (simp add: loadCredentials_def loadSession_def existsSync_def readFileSync_def)
  have no_session: "files sessionFile = Absent \<or> files sessionFile = Unreadable \<longrightarrow>
      loadSession files = []"
    by (auto simp add: loadSession_def existsSync_def readFileSync_def)
  have no_credentials: "files credentialsFile = Absent \<or> files credentialsFile = Unreadable
       \<or> (\<exists>data. files credentialsFile = Content data \<and> parse data = None) \<longrightarrow>
      loadCredentials parse files = VNull"
    by (auto simp add: loadCredentials_def existsSync_def readFileSync_def)
  show ?thesis
    using any_parser this_parser no_session no_credentials by blast
qed

theorem session_store_round_trip_witness:
  "loadCredentials json_parse saved_files = example_credentials
   \<and> loadSession saved_files = ''1AgAOMTQ5LjE1NA==''
   \<and> loadSession (saved_files(sessionFile := Content ('' 1AgAOMTQ5LjE1NA=='' @ [CHR 0x0A])))
        = ''1AgAOMTQ5LjE1NA==''
   \<and> loadSession no_files = []
   \<and> loadSession (no_files(sessionFile := Unreadable)) = []
   \<and> loadCredentials json_parse no_files = VNull
   \<and> loadCredentials json_parse (no_files(credentialsFile := Unreadable)) = VNull
   \<and> json_parse ''{apiId: 123}'' = None
   \<and> loadCredentials json_parse (no_files(credentialsFile := Content ''{apiId: 123}'')) = VNull"
proof -
  have ne: "''1AgAOMTQ5LjE1NA=='' \<noteq> ([] :: string)"
    by simp
  have tr: "trim ''1AgAOMTQ5LjE1NA=='' = ''1AgAOMTQ5LjE1NA=='' "
    by (simp add: trim_def js_whitespace_def)
  have tr2: "loadSession (saved_files(sessionFile := Content ('' 1AgAOMTQ5LjE1NA=='' @ [CHR 0x0A])))
        = ''1AgAOMTQ5LjE1NA=='' "
    by (simp add: loadSession_def existsSync_def readFileSync_def trim_def js_whitespace_def)
  have bad: "json_parse ''{apiId: 123}'' = None"
    by (simp add: json_parse_def skip_ws_def json_whitespace_def)
  have a: "no_files sessionFile = Absent" "no_files credentialsFile = Absent"
    "(no_files(sessionFile := Unreadable)) sessionFile = Unreadable"
    "(no_files(credentialsFile := Unreadable)) credentialsFile = Unreadable"
    "(no_files(credentialsFile := Content ''{apiId: 123}'')) credentialsFile = Content ''{apiId: 123}''"
    by (simp_all add: no_files_def)
  have law: "json_parse (JSON_stringify (credentials_record ''123'' ''abc'' ''+10000000000''))
      = Some (credentials_record ''123'' ''abc'' ''+10000000000'')"
    by (rule json_parse_credentials)
  show ?thesis
    using ne tr tr2 bad a law
      session_store_round_trip [where sessionString = "''1AgAOMTQ5LjE1NA==''" and files = no_files
        and apiId = "''123''" and apiHash = "''abc''" and phoneNumber = "''+10000000000''"
        and parse = json_parse]
      session_store_round_trip [where sessionString = "[]"
        and files = "no_files(sessionFile := Unreadable)" and parse = json_parse]
      session_store_round_trip [where sessionString = "[]"
        and files = "no_files(credentialsFile := Unreadable)" and parse = json_parse]
      session_store_round_trip [where sessionString = "[]"
        and files = "no_files(credentialsFile := Content ''{apiId: 123}'')" and parse = json_parse]
    by (simp add: saved_files_def example_credentials_def)
qed

end
